theory Spec2Isabelle
  imports Complex_Main
begin

section \<open>Values and errors\<close>

text \<open>
  The repository computes on pandas series of float64 values. A float64 is modelled as a
  real number or one of the three special values of IEEE 754 that the code can produce:
  plus infinity, minus infinity and NaN (pandas' marker of a missing value). Arithmetic on
  finite values is exact here: rounding and the sign of zero are not modelled, so a
  division of a non-zero finite value by zero gives the infinity of the dividend's sign.
  numpy and pandas never raise on a division by zero or on an invalid operation; they
  return an infinity or NaN, and so do the operations below.
\<close>

datatype fnum = Fin real | PInf | NInf | NaN

text \<open>The Python exceptions that the modelled code can raise.\<close>

datatype error = ValueError | TypeError | IndexError | KeyError

type_synonym timestamp = int

text \<open>A pandas Series: its index labels and its values, in order.\<close>

type_synonym series = "(timestamp \<times> fnum) list"

fun fneg :: "fnum \<Rightarrow> fnum" where
  "fneg (Fin a) = Fin (- a)"
| "fneg PInf = NInf"
| "fneg NInf = PInf"
| "fneg NaN = NaN"

fun fadd :: "fnum \<Rightarrow> fnum \<Rightarrow> fnum" where
  "fadd NaN _ = NaN"
| "fadd _ NaN = NaN"
| "fadd (Fin a) (Fin b) = Fin (a + b)"
| "fadd PInf NInf = NaN"
| "fadd NInf PInf = NaN"
| "fadd PInf _ = PInf"
| "fadd NInf _ = NInf"
| "fadd _ PInf = PInf"
| "fadd _ NInf = NInf"

definition fsub :: "fnum \<Rightarrow> fnum \<Rightarrow> fnum" where
  "fsub a b = fadd a (fneg b)"

text \<open>The sign of a non-NaN value: 1, 0 or -1.\<close>

fun fsgn :: "fnum \<Rightarrow> int" where
  "fsgn (Fin a) = (if 0 < a then 1 else if a < 0 then -1 else 0)"
| "fsgn PInf = 1"
| "fsgn NInf = -1"
| "fsgn NaN = 0"

definition inf_of_sign :: "int \<Rightarrow> fnum" where
  "inf_of_sign s = (if 0 < s then PInf else if s < 0 then NInf else NaN)"

fun is_fin :: "fnum \<Rightarrow> bool" where
  "is_fin (Fin _) = True"
| "is_fin _ = False"

fun fmul :: "fnum \<Rightarrow> fnum \<Rightarrow> fnum" where
  "fmul NaN _ = NaN"
| "fmul _ NaN = NaN"
| "fmul (Fin a) (Fin b) = Fin (a * b)"
| "fmul a b = inf_of_sign (fsgn a * fsgn b)"

fun fdiv :: "fnum \<Rightarrow> fnum \<Rightarrow> fnum" where
  "fdiv NaN _ = NaN"
| "fdiv _ NaN = NaN"
| "fdiv (Fin a) (Fin b) = (if b = 0 then inf_of_sign (fsgn (Fin a)) else Fin (a / b))"
| "fdiv (Fin a) _ = Fin 0"
| "fdiv a (Fin b) = (if b < 0 then fneg a else a)"
| "fdiv _ _ = NaN"

fun fabs :: "fnum \<Rightarrow> fnum" where
  "fabs (Fin a) = Fin \<bar>a\<bar>"
| "fabs PInf = PInf"
| "fabs NInf = PInf"
| "fabs NaN = NaN"

text \<open>Comparisons: every comparison with NaN is false.\<close>

fun flt :: "fnum \<Rightarrow> fnum \<Rightarrow> bool" where
  "flt NaN _ = False"
| "flt _ NaN = False"
| "flt (Fin a) (Fin b) = (a < b)"
| "flt PInf _ = False"
| "flt _ PInf = True"
| "flt NInf NInf = False"
| "flt NInf _ = True"
| "flt _ NInf = False"

definition fgt :: "fnum \<Rightarrow> fnum \<Rightarrow> bool" where
  "fgt a b = flt b a"


definition feq :: "fnum \<Rightarrow> fnum \<Rightarrow> bool" where
  "feq a b = (a \<noteq> NaN \<and> a = b)"

fun fsqrt :: "fnum \<Rightarrow> fnum" where
  "fsqrt (Fin a) = (if a < 0 then NaN else Fin (sqrt a))"
| "fsqrt PInf = PInf"
| "fsqrt NInf = NaN"
| "fsqrt NaN = NaN"

section \<open>Python's range and slices\<close>

text \<open>
  \<open>range(start, stop, step)\<close>: the values \<open>start, start + step, ...\<close> below \<open>stop\<close>
  for a positive step, above \<open>stop\<close> for a negative one; a zero step raises ValueError.
\<close>

function range_up :: "int \<Rightarrow> int \<Rightarrow> int \<Rightarrow> int list" where
  "range_up i stop step =
     (if 0 < step \<and> i < stop then i # range_up (i + step) stop step else [])"
  by pat_completeness auto
termination
  by (relation "measure (\<lambda>(i, stop, step). nat (stop - i))") auto

function range_down :: "int \<Rightarrow> int \<Rightarrow> int \<Rightarrow> int list" where
  "range_down i stop step =
     (if step < 0 \<and> stop < i then i # range_down (i + step) stop step else [])"
  by pat_completeness auto
termination
  by (relation "measure (\<lambda>(i, stop, step). nat (i - stop))") auto

definition py_range :: "int \<Rightarrow> int \<Rightarrow> int \<Rightarrow> error + int list" where
  "py_range start stop step =
     (if step = 0 then Inl ValueError
      else if 0 < step then Inr (range_up start stop step)
      else Inr (range_down start stop step))"

text \<open>
  \<open>xs[a:b]\<close> (and \<open>s.iloc[a:b]\<close>): a negative bound counts from the end, and both
  bounds are clamped to the sequence.
\<close>

definition slice_bound :: "nat \<Rightarrow> int \<Rightarrow> nat" where
  "slice_bound n a = (if a < 0 then nat (max (a + int n) 0) else min (nat a) n)"

definition iloc_slice :: "'a list \<Rightarrow> int \<Rightarrow> int \<Rightarrow> 'a list" where
  "iloc_slice xs a b =
     (let lo = slice_bound (length xs) a; hi = slice_bound (length xs) b
      in take (hi - lo) (drop lo xs))"

section \<open>The walk-forward cursor\<close>

text \<open>
  \<open>RollingWindowBacktest.run\<close> iterates
  \<open>for i in range(self.train_window, len(prices) - self.test_window, self.test_window)\<close>.
\<close>

definition run_cursors :: "int \<Rightarrow> int \<Rightarrow> nat \<Rightarrow> error + int list" where
  "run_cursors train_window test_window n =
     py_range train_window (int n - test_window) test_window"

section \<open>Series operations of pandas\<close>

text \<open>
  The helpers below model the pandas and numpy operations that the repository calls, from
  the documented behaviour of those libraries. Reductions skip missing values (pandas'
  default \<open>skipna=True\<close>); element-wise operations propagate them.
\<close>

definition s_get :: "series \<Rightarrow> timestamp \<Rightarrow> fnum" where
  "s_get s t = (case map_of s t of Some v \<Rightarrow> v | None \<Rightarrow> NaN)"

definition s_map :: "(fnum \<Rightarrow> fnum) \<Rightarrow> series \<Rightarrow> series" where
  "s_map f s = map (\<lambda>(t, v). (t, f v)) s"

text \<open>
  A binary operation on two series. Series with the same index combine position by
  position. Otherwise pandas aligns both on the sorted union of their labels, a label
  that one side lacks giving NaN on that side. (The alignment is modelled for indexes
  without repeated labels, which is what a price series with strictly increasing
  timestamps has.)
\<close>

definition s_binop :: "(fnum \<Rightarrow> fnum \<Rightarrow> fnum) \<Rightarrow> series \<Rightarrow> series \<Rightarrow> series" where
  "s_binop f a b =
     (if map fst a = map fst b
      then map (\<lambda>(x, y). (fst x, f (snd x) (snd y))) (zip a b)
      else map (\<lambda>t. (t, f (s_get a t) (s_get b t))) (sort (remdups (map fst a @ map fst b))))"

text \<open>\<open>s.shift(1)\<close>: every value moves one position down, the first becomes NaN.\<close>

definition shift1 :: "series \<Rightarrow> series" where
  "shift1 s = zip (map fst s) (NaN # butlast (map snd s))"

text \<open>\<open>s.diff()\<close> is \<open>s - s.shift(1)\<close>.\<close>

definition diff :: "series \<Rightarrow> series" where
  "diff s = s_binop fsub s (shift1 s)"

text \<open>
  \<open>s.pct_change()\<close> is \<open>s / s.shift(1) - 1\<close>. (Older pandas versions first fill
  missing prices forward; the two agree on a price series without missing values.)
\<close>

definition pct_change :: "series \<Rightarrow> series" where
  "pct_change s = s_map (\<lambda>v. fsub v (Fin 1)) (s_binop fdiv s (shift1 s))"

definition dropna :: "series \<Rightarrow> series" where
  "dropna s = filter (\<lambda>p. snd p \<noteq> NaN) s"

text \<open>\<open>s.loc[idx]\<close>: the values at the labels \<open>idx\<close>; a label that \<open>s\<close> lacks raises KeyError.\<close>

definition loc :: "series \<Rightarrow> timestamp list \<Rightarrow> error + fnum list" where
  "loc s idx =
     (if list_all (\<lambda>t. t \<in> set (map fst s)) idx then Inr (map (s_get s) idx)
      else Inl KeyError)"

text \<open>\<open>s.clip(lower, upper)\<close>: NaN stays NaN.\<close>

definition clip :: "fnum \<Rightarrow> fnum \<Rightarrow> fnum \<Rightarrow> fnum" where
  "clip lower upper v = (if flt v lower then lower else if flt upper v then upper else v)"

definition fsum :: "fnum list \<Rightarrow> fnum" where
  "fsum vs = foldl fadd (Fin 0) vs"

definition nonmissing :: "fnum list \<Rightarrow> fnum list" where
  "nonmissing vs = filter (\<lambda>v. v \<noteq> NaN) vs"

text \<open>\<open>s.sum()\<close>, \<open>s.mean()\<close> and \<open>s.min()\<close>.\<close>

definition sum_skipna :: "fnum list \<Rightarrow> fnum" where
  "sum_skipna vs = fsum (nonmissing vs)"

definition mean_skipna :: "fnum list \<Rightarrow> fnum" where
  "mean_skipna vs =
     (let ys = nonmissing vs
      in if ys = [] then NaN else fdiv (fsum ys) (Fin (real (length ys))))"

definition fmin :: "fnum \<Rightarrow> fnum \<Rightarrow> fnum" where
  "fmin a b = (if flt b a then b else a)"

definition fmax :: "fnum \<Rightarrow> fnum \<Rightarrow> fnum" where
  "fmax a b = (if flt a b then b else a)"

definition min_skipna :: "fnum list \<Rightarrow> fnum" where
  "min_skipna vs = (case nonmissing vs of [] \<Rightarrow> NaN | y # ys \<Rightarrow> foldl fmin y ys)"

text \<open>\<open>s.cumprod()\<close>: a missing value stays missing and does not enter the product.\<close>

fun cumprod_from :: "fnum \<Rightarrow> fnum list \<Rightarrow> fnum list" where
  "cumprod_from acc [] = []"
| "cumprod_from acc (v # vs) =
     (if v = NaN then NaN # cumprod_from acc vs
      else fmul acc v # cumprod_from (fmul acc v) vs)"

definition cumprod :: "series \<Rightarrow> series" where
  "cumprod s = zip (map fst s) (cumprod_from (Fin 1) (map snd s))"

text \<open>
  Window operations (\<open>ewm\<close>, \<open>expanding\<close>) first replace infinite inputs by NaN.
\<close>

definition prep_value :: "fnum \<Rightarrow> fnum" where
  "prep_value v = (if is_fin v then v else NaN)"

text \<open>\<open>s.expanding().max()\<close>: the largest value seen so far, NaN before the first one.\<close>

fun expanding_max_from :: "fnum \<Rightarrow> fnum list \<Rightarrow> fnum list" where
  "expanding_max_from m [] = []"
| "expanding_max_from m (v # vs) =
     (let m' = (if v = NaN then m else if m = NaN then v else fmax m v)
      in m' # expanding_max_from m' vs)"

definition expanding_max :: "series \<Rightarrow> series" where
  "expanding_max s = zip (map fst s) (expanding_max_from NaN (map prep_value (map snd s)))"

subsection \<open>Exponentially weighted moving average and deviation\<close>

text \<open>
  \<open>s.ewm(span=span, adjust=False).mean()\<close>, with pandas' defaults \<open>ignore_na=False\<close>
  and \<open>min_periods=0\<close>: the smoothing factor is \<open>2 / (span + 1)\<close>, and \<open>span < 1\<close>
  raises ValueError. The loop is pandas' own: \<open>weighted\<close> is the current average,
  \<open>old_wt\<close> the weight of the past, which decays over missing observations; an
  observation equal to the average leaves it unchanged.
\<close>

fun ewm_mean_loop :: "real \<Rightarrow> fnum \<Rightarrow> real \<Rightarrow> fnum list \<Rightarrow> fnum list" where
  "ewm_mean_loop \<alpha> weighted old_wt [] = []"
| "ewm_mean_loop \<alpha> weighted old_wt (cur # rest) =
     (if weighted \<noteq> NaN then
        (if cur \<noteq> NaN then
           (let old_wt' = old_wt * (1 - \<alpha>);
                w' = (if weighted \<noteq> cur
                      then fdiv (fadd (fmul (Fin old_wt') weighted) (fmul (Fin \<alpha>) cur))
                             (Fin (old_wt' + \<alpha>))
                      else weighted)
            in w' # ewm_mean_loop \<alpha> w' 1 rest)
         else weighted # ewm_mean_loop \<alpha> weighted (old_wt * (1 - \<alpha>)) rest)
      else if cur \<noteq> NaN then cur # ewm_mean_loop \<alpha> cur old_wt rest
      else weighted # ewm_mean_loop \<alpha> weighted old_wt rest)"

definition ewm_mean_values :: "real \<Rightarrow> fnum list \<Rightarrow> fnum list" where
  "ewm_mean_values \<alpha> vs =
     (case map prep_value vs of
        [] \<Rightarrow> []
      | v # rest \<Rightarrow> v # ewm_mean_loop \<alpha> v 1 rest)"

definition span_alpha :: "int \<Rightarrow> real" where
  "span_alpha spn = 2 / (real_of_int spn + 1)"

definition ewm_mean :: "int \<Rightarrow> series \<Rightarrow> error + series" where
  "ewm_mean spn s =
     (if spn < 1 then Inl ValueError
      else Inr (zip (map fst s) (ewm_mean_values (span_alpha spn) (map snd s))))"

text \<open>
  \<open>s.ewm(span=span, adjust=False).std()\<close>: the square root of the bias-corrected
  exponentially weighted variance. The first value is always missing, and a value is
  missing as long as the bias correction \<open>sum_wt^2 - sum_wt2\<close> is not positive.
\<close>

definition ewm_var_out :: "fnum \<Rightarrow> real \<Rightarrow> real \<Rightarrow> fnum" where
  "ewm_var_out cov sum_wt sum_wt2 =
     (let numerator = sum_wt * sum_wt; denominator = numerator - sum_wt2
      in if 0 < denominator then fmul (Fin (numerator / denominator)) cov else NaN)"

fun ewm_var_loop ::
  "real \<Rightarrow> fnum \<Rightarrow> fnum \<Rightarrow> real \<Rightarrow> real \<Rightarrow> real \<Rightarrow> fnum list \<Rightarrow> fnum list" where
  "ewm_var_loop \<alpha> mean_x cov sum_wt sum_wt2 old_wt [] = []"
| "ewm_var_loop \<alpha> mean_x cov sum_wt sum_wt2 old_wt (cur # rest) =
     (if mean_x \<noteq> NaN then
        (let sum_wt_a = sum_wt * (1 - \<alpha>);
             sum_wt2_a = sum_wt2 * ((1 - \<alpha>) * (1 - \<alpha>));
             old_wt_a = old_wt * (1 - \<alpha>)
         in if cur \<noteq> NaN then
              (let old_mean_x = mean_x;
                   mean_x' = (if mean_x \<noteq> cur
                              then fdiv (fadd (fmul (Fin old_wt_a) old_mean_x) (fmul (Fin \<alpha>) cur))
                                     (Fin (old_wt_a + \<alpha>))
                              else mean_x);
                   cov' = fdiv
                     (fadd
                        (fmul (Fin old_wt_a)
                           (fadd cov (fmul (fsub old_mean_x mean_x') (fsub old_mean_x mean_x'))))
                        (fmul (Fin \<alpha>) (fmul (fsub cur mean_x') (fsub cur mean_x'))))
                     (Fin (old_wt_a + \<alpha>));
                   old_wt_b = old_wt_a + \<alpha>;
                   sum_wt_b = (sum_wt_a + \<alpha>) / old_wt_b;
                   sum_wt2_b = (sum_wt2_a + \<alpha> * \<alpha>) / (old_wt_b * old_wt_b)
               in ewm_var_out cov' sum_wt_b sum_wt2_b
                    # ewm_var_loop \<alpha> mean_x' cov' sum_wt_b sum_wt2_b 1 rest)
            else ewm_var_out cov sum_wt_a sum_wt2_a
                   # ewm_var_loop \<alpha> mean_x cov sum_wt_a sum_wt2_a old_wt_a rest)
      else if cur \<noteq> NaN
      then ewm_var_out cov sum_wt sum_wt2
             # ewm_var_loop \<alpha> cur cov sum_wt sum_wt2 old_wt rest
      else NaN # ewm_var_loop \<alpha> mean_x cov sum_wt sum_wt2 old_wt rest)"

definition ewm_var_values :: "real \<Rightarrow> fnum list \<Rightarrow> fnum list" where
  "ewm_var_values \<alpha> vs =
     (case map prep_value vs of
        [] \<Rightarrow> []
      | v # rest \<Rightarrow> NaN # ewm_var_loop \<alpha> v (Fin 0) 1 1 1 rest)"

text \<open>pandas' \<open>zsqrt\<close>: the square root, with 0 for a negative argument.\<close>

definition zsqrt :: "fnum \<Rightarrow> fnum" where
  "zsqrt v = (if flt v (Fin 0) then Fin 0 else fsqrt v)"

definition ewm_std :: "int \<Rightarrow> series \<Rightarrow> error + series" where
  "ewm_std spn s =
     (if spn < 1 then Inl ValueError
      else Inr (zip (map fst s) (map zsqrt (ewm_var_values (span_alpha spn) (map snd s)))))"

section \<open>signals/ewma\_signal.py: EWMASignal\<close>

text \<open>
  \<open>raw_signal\<close> is the expression \<open>(fast_ewma - slow_ewma) / prices\<close>, which
  \<open>get_forecast\<close> evaluates once on \<open>prices\<close> (steps 1 and 2) and once on
  \<open>scaling_data\<close> (step 3).
\<close>

definition raw_signal :: "int \<Rightarrow> int \<Rightarrow> series \<Rightarrow> error + series" where
  "raw_signal fast slow prices =
     (case ewm_mean fast prices of Inl e \<Rightarrow> Inl e | Inr fast_ewma \<Rightarrow>
        (case ewm_mean slow prices of Inl e \<Rightarrow> Inl e | Inr slow_ewma \<Rightarrow>
           Inr (s_binop fdiv (s_binop fsub fast_ewma slow_ewma) prices)))"

text \<open>
  The reference magnitude \<open>scaling_raw.abs().mean()\<close> of a series of scaling data, the
  divisor of the scaling factor.
\<close>

definition reference_magnitude :: "int \<Rightarrow> int \<Rightarrow> series \<Rightarrow> error + fnum" where
  "reference_magnitude fast slow scaling_data =
     (case raw_signal fast slow scaling_data of Inl e \<Rightarrow> Inl e | Inr scaling_raw \<Rightarrow>
        Inr (mean_skipna (map snd (s_map fabs scaling_raw))))"

text \<open>
  The local variable \<open>scaling_factor\<close> of \<open>get_forecast\<close>:
  \<open>scaling_data = train_prices if train_prices is not None else prices\<close> and
  \<open>scaling_factor = 10 / scaling_raw.abs().mean()\<close>.
\<close>

definition scaling_factor :: "int \<Rightarrow> int \<Rightarrow> series \<Rightarrow> series option \<Rightarrow> error + fnum" where
  "scaling_factor fast slow prices train_prices =
     (let scaling_data = (case train_prices of Some t \<Rightarrow> t | None \<Rightarrow> prices)
      in (case raw_signal fast slow scaling_data of Inl e \<Rightarrow> Inl e | Inr scaling_raw \<Rightarrow>
            Inr (fdiv (Fin 10) (mean_skipna (map snd (s_map fabs scaling_raw))))))"

definition get_forecast :: "int \<Rightarrow> int \<Rightarrow> series \<Rightarrow> series option \<Rightarrow> error + series" where
  "get_forecast fast slow prices train_prices =
     (case raw_signal fast slow prices of Inl e \<Rightarrow> Inl e | Inr raw \<Rightarrow>
        (case scaling_factor fast slow prices train_prices of Inl e \<Rightarrow> Inl e | Inr k \<Rightarrow>
           Inr (s_map (clip (Fin (- 20)) (Fin 20)) (s_map (\<lambda>v. fmul v k) raw))))"

section \<open>position\_sizing/vol\_target\_sizing.py: VolTargetSizing\<close>

record vol_target_sizing =
  vol_target :: fnum
  lookback :: int

text \<open>\<open>np.sqrt(256)\<close> is 16.\<close>

definition calculate_volatility :: "vol_target_sizing \<Rightarrow> series \<Rightarrow> error + series" where
  "calculate_volatility self prices =
     (let returns = pct_change prices
      in (case ewm_std (lookback self) returns of Inl e \<Rightarrow> Inl e | Inr sd \<Rightarrow>
            Inr (s_map (\<lambda>v. fmul v (fsqrt (Fin 256))) sd)))"

definition get_position_size ::
  "vol_target_sizing \<Rightarrow> series \<Rightarrow> series \<Rightarrow> fnum \<Rightarrow> error + series" where
  "get_position_size self forecast prices capital =
     (case calculate_volatility self prices of Inl e \<Rightarrow> Inl e | Inr volatility \<Rightarrow>
        (let instrument_currency_vol = s_binop fmul volatility prices;
             notional_position =
               s_map (\<lambda>v. fdiv (fmul (vol_target self) capital) v) instrument_currency_vol;
             positions =
               s_binop fmul notional_position (s_map (\<lambda>v. fdiv v (Fin 10)) forecast)
         in Inr positions))"

section \<open>backtesting/rolling\_window\_backtest.py: RollingWindowBacktest\<close>

text \<open>
  The backtest is generic in its two collaborators: \<open>signal\<close> stands for the call
  \<open>self.signal.get_forecast(test_prices, train_data=train_prices)\<close> and \<open>sizing\<close> for
  \<open>self.sizing.get_position_size(forecast, test_prices, capital)\<close>; either may raise.
\<close>

type_synonym signal_call = "series \<Rightarrow> series \<Rightarrow> error + series"
type_synonym sizing_call = "series \<Rightarrow> series \<Rightarrow> fnum \<Rightarrow> error + series"

text \<open>The five lists that the loop extends.\<close>

record accumulators =
  all_forecasts :: "fnum list"
  all_positions :: "fnum list"
  all_returns :: "fnum list"
  all_costs :: "fnum list"
  timestamps :: "timestamp list"

definition empty_accumulators :: accumulators where
  "empty_accumulators =
     \<lparr>all_forecasts = [], all_positions = [], all_returns = [], all_costs = [],
      timestamps = []\<rparr>"

text \<open>One pass of the loop body, for the cursor \<open>i\<close>.\<close>

definition window_step ::
  "signal_call \<Rightarrow> sizing_call \<Rightarrow> int \<Rightarrow> int \<Rightarrow> series \<Rightarrow> fnum \<Rightarrow> fnum \<Rightarrow> int \<Rightarrow>
   accumulators \<Rightarrow> error + accumulators" where
  "window_step signal sizing train_window test_window prices capital transaction_cost i acc =
     (let train_prices = iloc_slice prices (i - train_window) i;
          test_prices = iloc_slice prices i (i + test_window)
      in (case signal test_prices train_prices of Inl e \<Rightarrow> Inl e | Inr forecast \<Rightarrow>
         (case sizing forecast test_prices capital of Inl e \<Rightarrow> Inl e | Inr positions \<Rightarrow>
           (let test_returns = pct_change test_prices;
                strategy_returns = s_binop fmul (shift1 positions) test_returns;
                position_changes = s_map fabs (diff positions);
                costs = s_map (\<lambda>v. fmul v transaction_cost) position_changes;
                net_returns = s_binop fsub strategy_returns costs;
                valid_idx = map fst (dropna net_returns)
            in (case loc forecast valid_idx of Inl e \<Rightarrow> Inl e | Inr fs \<Rightarrow>
               (case loc positions valid_idx of Inl e \<Rightarrow> Inl e | Inr ps \<Rightarrow>
               (case loc net_returns valid_idx of Inl e \<Rightarrow> Inl e | Inr rs \<Rightarrow>
               (case loc costs valid_idx of Inl e \<Rightarrow> Inl e | Inr cs \<Rightarrow>
                 Inr \<lparr>all_forecasts = all_forecasts acc @ fs,
                      all_positions = all_positions acc @ ps,
                      all_returns = all_returns acc @ rs,
                      all_costs = all_costs acc @ cs,
                      timestamps = timestamps acc @ valid_idx\<rparr>))))))))"

fun run_loop ::
  "signal_call \<Rightarrow> sizing_call \<Rightarrow> int \<Rightarrow> int \<Rightarrow> series \<Rightarrow> fnum \<Rightarrow> fnum \<Rightarrow> int list \<Rightarrow>
   accumulators \<Rightarrow> error + accumulators" where
  "run_loop signal sizing train_window test_window prices capital transaction_cost [] acc =
     Inr acc"
| "run_loop signal sizing train_window test_window prices capital transaction_cost (i # is) acc =
     (case window_step signal sizing train_window test_window prices capital transaction_cost
             i acc of
        Inl e \<Rightarrow> Inl e
      | Inr acc' \<Rightarrow>
          run_loop signal sizing train_window test_window prices capital transaction_cost
            is acc')"

record backtest_result =
  returns :: series
  forecasts :: series
  positions :: series
  costs :: series
  cumulative_returns :: series

definition make_results :: "accumulators \<Rightarrow> backtest_result" where
  "make_results acc =
     (let result_index = timestamps acc;
          rets = zip result_index (all_returns acc)
      in \<lparr>returns = rets,
          forecasts = zip result_index (all_forecasts acc),
          positions = zip result_index (all_positions acc),
          costs = zip result_index (all_costs acc),
          cumulative_returns = cumprod (s_map (fadd (Fin 1)) rets)\<rparr>)"

text \<open>The result of a run in which no window contributes a timestamp.\<close>

definition empty_result :: backtest_result where
  "empty_result =
     \<lparr>returns = [], forecasts = [], positions = [], costs = [], cumulative_returns = []\<rparr>"

definition run ::
  "signal_call \<Rightarrow> sizing_call \<Rightarrow> int \<Rightarrow> int \<Rightarrow> series \<Rightarrow> fnum \<Rightarrow> fnum \<Rightarrow>
   error + backtest_result" where
  "run signal sizing train_window test_window prices capital transaction_cost =
     (case run_cursors train_window test_window (length prices) of
        Inl e \<Rightarrow> Inl e
      | Inr cursors \<Rightarrow>
          (case run_loop signal sizing train_window test_window prices capital
                  transaction_cost cursors empty_accumulators of
             Inl e \<Rightarrow> Inl e
           | Inr acc \<Rightarrow> Inr (make_results acc)))"

text \<open>
  \<open>EWMASignal.get_forecast(self, prices, train_prices=None)\<close> has no parameter named
  \<open>train_data\<close>, so the call that \<open>run\<close> makes raises TypeError when the signal is an
  \<open>EWMASignal\<close>, as it is in \<open>main.py\<close>.
\<close>

definition ewma_signal_call :: "int \<Rightarrow> int \<Rightarrow> signal_call" where
  "ewma_signal_call fast slow test_prices train_data = Inl TypeError"

definition vol_target_sizing_call :: "vol_target_sizing \<Rightarrow> sizing_call" where
  "vol_target_sizing_call self forecast prices capital =
     get_position_size self forecast prices capital"

record metrics =
  sharpe_ratio :: fnum
  total_return :: fnum
  annual_return :: fnum
  max_drawdown :: fnum
  win_rate :: fnum
  avg_win :: fnum
  avg_loss :: fnum
  profit_factor :: fnum
  std_dev :: fnum
  total_costs :: fnum
  num_trades :: nat

text \<open>
  \<open>calculate_metrics\<close> returns \<open>None\<close> behind the guard
  \<open>returns.std() == 0 or len(returns) == 0\<close>. The guard compares a computed float64 with
  0 exactly, so its outcome depends on rounding: for the returns 0.1, 0.1, 0.1 the mean
  rounds to 0.10000000000000002 and pandas' standard deviation is 1.7e-17, not 0. The
  rounding is not modelled, so the value that \<open>returns.std()\<close> computes is the parameter
  \<open>std\<close> of the model; it is evaluated before the length, as in Python's \<open>or\<close>, and
  pandas returns NaN for it on an empty series without raising.
\<close>

definition calculate_metrics :: "(fnum list \<Rightarrow> fnum) \<Rightarrow> backtest_result \<Rightarrow> metrics option" where
  "calculate_metrics std results =
     (let rets = map snd (returns results)
      in if feq (std rets) (Fin 0) \<or> length rets = 0 then None
         else
           (let sharpe = fmul (fdiv (mean_skipna rets) (std rets)) (fsqrt (Fin 256));
                cumulative = cumprod (s_map (fadd (Fin 1)) (returns results));
                running_max = expanding_max cumulative;
                drawdown = s_binop fdiv (s_binop fsub cumulative running_max) running_max;
                wins = filter (\<lambda>v. fgt v (Fin 0)) rets;
                losses = filter (\<lambda>v. flt v (Fin 0)) rets
            in Some
                 \<lparr>sharpe_ratio = sharpe,
                  total_return = fsub (last (map snd cumulative)) (Fin 1),
                  annual_return = fmul (mean_skipna rets) (Fin 256),
                  max_drawdown = min_skipna (map snd drawdown),
                  win_rate = fdiv (Fin (real (length wins))) (Fin (real (length rets))),
                  avg_win = (if wins \<noteq> [] then mean_skipna wins else Fin 0),
                  avg_loss = (if losses \<noteq> [] then mean_skipna losses else Fin 0),
                  profit_factor =
                    (if losses \<noteq> []
                     then fdiv (sum_skipna wins) (sum_skipna (map fabs losses))
                     else PInf),
                  std_dev = std rets,
                  total_costs = sum_skipna (map snd (costs results)),
                  num_trades = length rets\<rparr>))"

section \<open>portfolio\_u/portfolio\_optimizer.py: PortfolioOptimizer\<close>





text \<open>
  \<open>pd.DataFrame(forecasts_dict)\<close>: one column per name, in the dictionary's order. The
  index is the common index when all series share it, and the sorted union of their labels
  otherwise; a label that a series lacks gives NaN in its column. A row of the frame is a
  label with its cells in column order.
\<close>

type_synonym forecasts_dict = "(string \<times> series) list"

record data_frame =
  columns :: "string list"
  rows :: "(timestamp \<times> fnum list) list"

definition frame_index :: "series list \<Rightarrow> timestamp list" where
  "frame_index ss =
     (case ss of
        [] \<Rightarrow> []
      | s # rest \<Rightarrow>
          if list_all (\<lambda>s'. map fst s' = map fst s) rest then map fst s
          else sort (remdups (concat (map (map fst) ss))))"

definition column_values :: "timestamp list \<Rightarrow> series \<Rightarrow> fnum list" where
  "column_values idx s = (if map fst s = idx then map snd s else map (s_get s) idx)"

definition DataFrame :: "forecasts_dict \<Rightarrow> data_frame" where
  "DataFrame forecasts_dict =
     (let idx = frame_index (map snd forecasts_dict);
          cols = map (\<lambda>(name, s). column_values idx s) forecasts_dict
      in \<lparr>columns = map fst forecasts_dict,
          rows = map (\<lambda>k. (idx ! k, map (\<lambda>c. c ! k) cols)) [0..<length idx]\<rparr>)"

text \<open>
  \<open>combine_forecasts\<close>: \<open>correlation_weights\<close> is \<open>None\<close> or a dictionary from names to
  weights. \<open>sum(weights)\<close> is Python's sum, which starts from 0; dividing the numpy array
  by it follows numpy, a zero sum giving infinities or NaN.
\<close>

definition combine_forecasts ::
  "forecasts_dict \<Rightarrow> (string \<rightharpoonup> fnum) option \<Rightarrow> series" where
  "combine_forecasts forecasts_dict correlation_weights =
     (let forecasts_df = DataFrame forecasts_dict;
          combined =
            (case correlation_weights of
               None \<Rightarrow> map (\<lambda>(t, cells). (t, mean_skipna cells)) (rows forecasts_df)
             | Some cw \<Rightarrow>
                 (let weights =
                        map (\<lambda>col. case cw col of Some w \<Rightarrow> w | None \<Rightarrow> Fin 1)
                          (columns forecasts_df);
                      weights' = map (\<lambda>w. fdiv w (fsum weights)) weights
                  in map (\<lambda>(t, cells).
                            (t, sum_skipna (map (\<lambda>(c, w). fmul c w) (zip cells weights'))))
                       (rows forecasts_df)))
      in s_map (clip (Fin (- 20)) (Fin 20)) combined)"

section \<open>Properties of the cursor\<close>

lemmas range_up_unfold = range_up.simps
lemmas range_down_unfold = range_down.simps
declare range_up.simps [simp del] range_down.simps [simp del]

lemma range_up_set:
  "0 < step \<Longrightarrow>
   set (range_up i stop step) = {j. i \<le> j \<and> j < stop \<and> (j - i) mod step = 0}"
proof (induction i stop step rule: range_up.induct)
  case (1 i stop step)
  show ?case
  proof (cases "i < stop")
    case False
    then show ?thesis
      by (subst range_up_unfold) auto
  next
    case True
    have ih: "set (range_up (i + step) stop step) =
        {j. i + step \<le> j \<and> j < stop \<and> (j - (i + step)) mod step = 0}"
      using 1 True by simp
    have "{j. i \<le> j \<and> j < stop \<and> (j - i) mod step = 0} =
        insert i {j. i + step \<le> j \<and> j < stop \<and> (j - (i + step)) mod step = 0}"
      (is "?L = insert i ?R")
    proof (rule set_eqI)
      fix j
      show "j \<in> ?L \<longleftrightarrow> j \<in> insert i ?R"
      proof
        assume j: "j \<in> ?L"
        show "j \<in> insert i ?R"
        proof (cases "j = i")
          case True
          then show ?thesis by simp
        next
          case False
          with j have lt: "0 < j - i" and m: "(j - i) mod step = 0" by auto
          from m have "step dvd (j - i)" by (simp add: dvd_eq_mod_eq_0)
          with lt have "step \<le> j - i" by (simp add: zdvd_imp_le)
          moreover have "(j - (i + step)) mod step = 0"
            using m by (simp add: diff_diff_eq [symmetric] mod_diff_eq)
          ultimately show ?thesis using j by simp
        qed
      next
        assume "j \<in> insert i ?R"
        then consider "j = i" | "j \<in> ?R" by auto
        then show "j \<in> ?L"
        proof cases
          case 1
          then show ?thesis using True by simp
        next
          case 2
          then have "(j - i - step) mod step = 0" by (simp add: diff_diff_eq)
          then have "(j - i) mod step = 0"
            by (metis diff_add_cancel mod_add_self2)
          then show ?thesis using 2 \<open>0 < step\<close> by simp
        qed
      qed
    qed
    then show ?thesis
      using True \<open>0 < step\<close> ih by (subst range_up_unfold) simp
  qed
qed


lemma run_cursors_positive:
  "0 < test_window \<Longrightarrow>
   run_cursors train_window test_window n =
     Inr (range_up train_window (int n - test_window) test_window)"
  by (simp add: run_cursors_def py_range_def)

section \<open>C1: the cursor of the walk-forward loop\<close>




section \<open>Properties of the series operations\<close>

lemma s_map_values: "map snd (s_map f s) = map f (map snd s)"
  by (induction s) (auto simp: s_map_def)

lemma s_map_index: "map fst (s_map f s) = map fst s"
  by (induction s) (auto simp: s_map_def)

lemma s_binop_same_index:
  "map fst a = map fst b \<Longrightarrow> map fst (s_binop f a b) = map fst a"
proof -
  assume eq: "map fst a = map fst b"
  then have "length a = length b" by (metis length_map)
  then have "map fst (map (\<lambda>(x, y). (fst x, f (snd x) (snd y))) (zip a b)) = map fst a"
    by (induction a b rule: list_induct2) auto
  with eq show ?thesis by (simp add: s_binop_def)
qed

lemma length_ewm_mean_loop: "length (ewm_mean_loop \<alpha> w old_wt vs) = length vs"
  by (induction vs arbitrary: w old_wt) (auto simp: Let_def)

lemma length_ewm_mean_values: "length (ewm_mean_values \<alpha> vs) = length vs"
  by (cases vs) (auto simp: ewm_mean_values_def length_ewm_mean_loop)

lemma ewm_mean_index: "ewm_mean spn s = Inr m \<Longrightarrow> map fst m = map fst s"
  by (auto simp: ewm_mean_def length_ewm_mean_values split: if_splits)

lemma clip_forecast_range:
  "clip (Fin (- 20)) (Fin 20) v = NaN \<or>
   (\<exists>r. clip (Fin (- 20)) (Fin 20) v = Fin r \<and> - 20 \<le> r \<and> r \<le> 20)"
  by (cases v) (auto simp: clip_def)

lemma clip_times_inf:
  "clip (Fin (- 20)) (Fin 20) (fmul v PInf) \<in> {NaN, Fin 20, Fin (- 20)}"
  by (cases v) (auto simp: clip_def inf_of_sign_def)

section \<open>Properties of EWMASignal\<close>

lemmas forecast_eval =
  get_forecast_def raw_signal_def scaling_factor_def ewm_mean_def ewm_mean_values_def
  prep_value_def span_alpha_def s_binop_def s_map_def mean_skipna_def nonmissing_def
  fsum_def clip_def fsub_def inf_of_sign_def Let_def

lemma raw_signal_index:
  "raw_signal fast slow prices = Inr raw \<Longrightarrow> map fst raw = map fst prices"
  by (auto simp: raw_signal_def s_binop_same_index dest!: ewm_mean_index split: sum.splits)

lemma raw_signal_total:
  "1 \<le> fast \<Longrightarrow> 1 \<le> slow \<Longrightarrow> \<exists>raw. raw_signal fast slow prices = Inr raw"
  by (simp add: raw_signal_def ewm_mean_def)

lemma get_forecast_total:
  assumes "1 \<le> fast" "1 \<le> slow"
  shows "\<exists>f. get_forecast fast slow prices train_prices = Inr f \<and> map fst f = map fst prices"
proof -
  obtain raw where raw: "raw_signal fast slow prices = Inr raw"
    using raw_signal_total [OF assms] by blast
  obtain sr where
    "raw_signal fast slow (case train_prices of Some t \<Rightarrow> t | None \<Rightarrow> prices) = Inr sr"
    using raw_signal_total [OF assms] by blast
  then obtain k where "scaling_factor fast slow prices train_prices = Inr k"
    by (simp add: scaling_factor_def)
  with raw show ?thesis
    by (simp add: get_forecast_def s_map_index raw_signal_index)
qed

subsection \<open>C2: the scaling factor depends on the reference series only\<close>

text \<open>
  C2. With \<open>train_prices\<close> given, the scaling factor that \<open>get_forecast\<close> applies is the
  same for any two evaluation series \<open>P1\<close> and \<open>P2\<close>, and the forecast for \<open>P1\<close> is the raw
  signal of \<open>P1\<close> times that factor, clipped: no statistic of the evaluation series enters
  the normalisation.
\<close>

theorem C2_scaling_factor_reference_only:
  "scaling_factor fast slow P1 (Some T) = scaling_factor fast slow P2 (Some T) \<and>
   get_forecast fast slow P1 (Some T) =
     (case raw_signal fast slow P1 of
        Inl e \<Rightarrow> Inl e
      | Inr raw \<Rightarrow>
          (case scaling_factor fast slow P2 (Some T) of
             Inl e \<Rightarrow> Inl e
           | Inr k \<Rightarrow> Inr (s_map (clip (Fin (- 20)) (Fin 20)) (s_map (\<lambda>v. fmul v k) raw))))"
proof -
  have eq: "scaling_factor fast slow P1 (Some T) = scaling_factor fast slow P2 (Some T)"
    by (simp add: scaling_factor_def)
  show ?thesis
    unfolding get_forecast_def eq by simp
qed

theorem C2_scaling_factor_reference_only_witness:
  "scaling_factor 1 3 [(0, Fin 1), (1, Fin 2), (2, Fin 4)] (Some [(0, Fin 1), (1, Fin 2)])
     = Inr (Fin 80) \<and>
   scaling_factor 1 3 [(0, Fin 7), (1, Fin 7)] (Some [(0, Fin 1), (1, Fin 2)]) = Inr (Fin 80)"
  using C2_scaling_factor_reference_only
    [of 1 3 "[(0, Fin 1), (1, Fin 2), (2, Fin 4)]" "[(0, Fin 1), (1, Fin 2)]"
       "[(0, Fin 7), (1, Fin 7)]"]
  by (simp add: forecast_eval)

subsection \<open>C3: forecasts lie in the forecast range\<close>

text \<open>
  C3. Every value of a series that \<open>get_forecast\<close> returns, and every value of the series
  that \<open>combine_forecasts\<close> returns, is either missing (NaN) or a number in the closed
  interval from -20 to 20.
\<close>

theorem C3_forecast_values_clipped:
  "(get_forecast fast slow prices train_prices = Inr forecast \<longrightarrow>
      (\<forall>v \<in> set (map snd forecast).
         v = NaN \<or> (\<exists>r. v = Fin r \<and> - 20 \<le> r \<and> r \<le> 20))) \<and>
   (\<forall>v \<in> set (map snd (combine_forecasts forecasts_dict correlation_weights)).
      v = NaN \<or> (\<exists>r. v = Fin r \<and> - 20 \<le> r \<and> r \<le> 20))"
proof (intro conjI impI ballI)
  fix v
  assume "get_forecast fast slow prices train_prices = Inr forecast"
    and v: "v \<in> set (map snd forecast)"
  then obtain s where "forecast = s_map (clip (Fin (- 20)) (Fin 20)) s"
    by (auto simp: get_forecast_def split: sum.splits)
  with v obtain u where "v = clip (Fin (- 20)) (Fin 20) u"
    by (auto simp: s_map_values)
  then show "v = NaN \<or> (\<exists>r. v = Fin r \<and> - 20 \<le> r \<and> r \<le> 20)"
    using clip_forecast_range [of u] by simp
next
  fix v
  assume "v \<in> set (map snd (combine_forecasts forecasts_dict correlation_weights))"
  then obtain u where "v = clip (Fin (- 20)) (Fin 20) u"
    by (auto simp: combine_forecasts_def Let_def s_map_values)
  then show "v = NaN \<or> (\<exists>r. v = Fin r \<and> - 20 \<le> r \<and> r \<le> 20)"
    using clip_forecast_range [of u] by simp
qed

theorem C3_forecast_values_clipped_witness:
  "get_forecast 1 3 [(0, Fin 1), (1, Fin 2), (2, Fin 4)] (Some [(0, Fin 1), (1, Fin 2)])
     = Inr [(0, Fin 0), (1, Fin 20), (2, Fin 20)] \<and>
   combine_forecasts
     [(''a'', [(0, Fin 10), (1, Fin 30)]), (''b'', [(0, Fin 20), (1, Fin 30)])] None
     = [(0, Fin 15), (1, Fin 20)]"
  using C3_forecast_values_clipped
    [of 1 3 "[(0, Fin 1), (1, Fin 2), (2, Fin 4)]" "Some [(0, Fin 1), (1, Fin 2)]"
       "[(0, Fin 0), (1, Fin 20), (2, Fin 20)]"
       "[(''a'', [(0, Fin 10), (1, Fin 30)]), (''b'', [(0, Fin 20), (1, Fin 30)])]" None]
  by (simp add: combine_forecasts_def DataFrame_def frame_index_def column_values_def
      forecast_eval upt_rec)

lemma scaling_factor_magnitude:
  "scaling_factor fast slow prices (Some ref) =
     (case reference_magnitude fast slow ref of Inl e \<Rightarrow> Inl e | Inr m \<Rightarrow> Inr (fdiv (Fin 10) m))"
  by (simp add: scaling_factor_def reference_magnitude_def split: sum.splits)

lemma reference_magnitude_spans:
  "reference_magnitude fast slow ref = Inr m \<Longrightarrow> 1 \<le> fast \<and> 1 \<le> slow"
  by (auto simp: reference_magnitude_def raw_signal_def ewm_mean_def split: sum.splits if_splits)

lemma get_forecast_values:
  assumes "get_forecast fast slow prices train_prices = Inr f"
    and "scaling_factor fast slow prices train_prices = Inr k"
    and "v \<in> set (map snd f)"
  shows "\<exists>u. v = clip (Fin (- 20)) (Fin 20) (fmul u k)"
proof -
  from assms(1,2) obtain raw where
    "f = s_map (clip (Fin (- 20)) (Fin 20)) (s_map (\<lambda>v. fmul v k) raw)"
    by (auto simp: get_forecast_def split: sum.splits)
  then have "map snd f = map (\<lambda>u. clip (Fin (- 20)) (Fin 20) (fmul u k)) (map snd raw)"
    by (simp add: s_map_values)
  with assms(3) show ?thesis by auto
qed

lemma fmul_NaN_right: "fmul v NaN = NaN"
  by (cases v) auto

lemma ewm_mean_loop_constant:
  "ewm_mean_loop \<alpha> (Fin c) old_wt (map (\<lambda>t. Fin c) ts) = map (\<lambda>t. Fin c) ts"
  by (induction ts arbitrary: old_wt) (auto simp: Let_def)

lemma ewm_mean_constant:
  "1 \<le> spn \<Longrightarrow> ewm_mean spn (map (\<lambda>t. (t, Fin c)) ts) = Inr (map (\<lambda>t. (t, Fin c)) ts)"
proof (cases ts)
  case Nil
  assume "1 \<le> spn"
  with Nil show ?thesis by (simp add: ewm_mean_def ewm_mean_values_def)
next
  case (Cons t ts')
  assume "1 \<le> spn"
  have "ewm_mean_values (span_alpha spn) (map snd (map (\<lambda>t. (t, Fin c)) ts)) = map (\<lambda>t. Fin c) ts"
    using Cons by (simp add: ewm_mean_values_def prep_value_def comp_def ewm_mean_loop_constant)
  moreover have "zip (map fst (map (\<lambda>t. (t, Fin c)) ts)) (map (\<lambda>t. Fin c) ts) = map (\<lambda>t. (t, Fin c)) ts"
    by (induction ts) auto
  ultimately show ?thesis using \<open>1 \<le> spn\<close> by (simp add: ewm_mean_def)
qed

lemma s_binop_constant:
  "s_binop f (map (\<lambda>t. (t, a)) ts) (map (\<lambda>t. (t, b)) ts) = map (\<lambda>t. (t, f a b)) ts"
proof -
  have "map (\<lambda>(x, y). (fst x, f (snd x) (snd y))) (zip (map (\<lambda>t. (t, a)) ts) (map (\<lambda>t. (t, b)) ts))
      = map (\<lambda>t. (t, f a b)) ts"
    by (induction ts) auto
  then show ?thesis by (simp add: s_binop_def comp_def)
qed

lemma raw_signal_constant:
  assumes "1 \<le> fast" "1 \<le> slow" "c \<noteq> 0"
  shows "raw_signal fast slow (map (\<lambda>t. (t, Fin c)) ts) = Inr (map (\<lambda>t. (t, Fin 0)) ts)"
  using assms by (simp add: raw_signal_def ewm_mean_constant s_binop_constant fsub_def)

lemma fsum_zeros: "foldl fadd (Fin 0) (map (\<lambda>t. Fin 0) ts) = Fin 0"
  by (induction ts) auto

lemma reference_magnitude_constant:
  assumes "1 \<le> fast" "1 \<le> slow" "c \<noteq> 0" "ts \<noteq> []"
  shows "reference_magnitude fast slow (map (\<lambda>t. (t, Fin c)) ts) = Inr (Fin 0)"
proof -
  have "map snd (s_map fabs (map (\<lambda>t. (t, Fin 0)) ts)) = map (\<lambda>t. Fin 0) ts"
    by (simp add: s_map_def comp_def)
  moreover have "mean_skipna (map (\<lambda>t. Fin 0) ts) = Fin 0"
    using \<open>ts \<noteq> []\<close> by (simp add: mean_skipna_def nonmissing_def fsum_def fsum_zeros Let_def)
  ultimately show ?thesis
    using assms by (simp add: reference_magnitude_def raw_signal_constant)
qed

lemma get_forecast_constant:
  assumes "1 \<le> fast" "1 \<le> slow" "c \<noteq> 0" "ts \<noteq> []"
  shows "get_forecast fast slow (map (\<lambda>t. (t, Fin c)) ts) None = Inr (map (\<lambda>t. (t, NaN)) ts)"
proof -
  have "scaling_factor fast slow (map (\<lambda>t. (t, Fin c)) ts) None = Inr PInf"
    using reference_magnitude_constant [OF assms]
    by (auto simp: scaling_factor_def reference_magnitude_def inf_of_sign_def split: sum.splits)
  then show ?thesis
    using assms by (simp add: get_forecast_def raw_signal_constant s_map_def comp_def clip_def inf_of_sign_def)
qed

subsection \<open>C4: a degenerate reference series\<close>

text \<open>
  C4, as the code has it. \<open>get_forecast\<close> has no check of the reference magnitude and
  raises no error for it: with spans of at least 1 it always returns a series over the
  index of \<open>prices\<close>. When the reference magnitude is zero the scaling factor is plus
  infinity and every forecast value is missing, 20 or -20; when the reference magnitude is
  NaN every forecast value is missing. A constant non-zero price series has reference
  magnitude zero, and its own forecast is missing everywhere.
\<close>

theorem C4_degenerate_reference_returns_series:
  "(1 \<le> fast \<and> 1 \<le> slow \<longrightarrow>
      (\<exists>f. get_forecast fast slow prices train_prices = Inr f \<and> map fst f = map fst prices)) \<and>
   (reference_magnitude fast slow ref = Inr (Fin 0) \<longrightarrow>
      scaling_factor fast slow prices (Some ref) = Inr PInf \<and>
      (\<exists>f. get_forecast fast slow prices (Some ref) = Inr f \<and>
           (\<forall>v \<in> set (map snd f). v = NaN \<or> v = Fin 20 \<or> v = Fin (- 20)))) \<and>
   (reference_magnitude fast slow ref = Inr NaN \<longrightarrow>
      (\<exists>f. get_forecast fast slow prices (Some ref) = Inr f \<and>
           (\<forall>v \<in> set (map snd f). v = NaN))) \<and>
   (1 \<le> fast \<and> 1 \<le> slow \<and> c \<noteq> 0 \<and> ts \<noteq> [] \<longrightarrow>
      reference_magnitude fast slow (map (\<lambda>t. (t, Fin c)) ts) = Inr (Fin 0) \<and>
      get_forecast fast slow (map (\<lambda>t. (t, Fin c)) ts) None = Inr (map (\<lambda>t. (t, NaN)) ts))"
proof (intro conjI impI)
  assume "1 \<le> fast \<and> 1 \<le> slow"
  then show "\<exists>f. get_forecast fast slow prices train_prices = Inr f \<and> map fst f = map fst prices"
    using get_forecast_total by blast
next
  assume m: "reference_magnitude fast slow ref = Inr (Fin 0)"
  then show k: "scaling_factor fast slow prices (Some ref) = Inr PInf"
    by (simp add: scaling_factor_magnitude inf_of_sign_def)
  from m obtain f where f: "get_forecast fast slow prices (Some ref) = Inr f"
    using reference_magnitude_spans get_forecast_total by blast
  have "\<forall>v \<in> set (map snd f). v = NaN \<or> v = Fin 20 \<or> v = Fin (- 20)"
  proof
    fix v
    assume "v \<in> set (map snd f)"
    then obtain u where "v = clip (Fin (- 20)) (Fin 20) (fmul u PInf)"
      using get_forecast_values [OF f k] by blast
    then show "v = NaN \<or> v = Fin 20 \<or> v = Fin (- 20)"
      using clip_times_inf [of u] by auto
  qed
  with f show "\<exists>f. get_forecast fast slow prices (Some ref) = Inr f \<and>
      (\<forall>v \<in> set (map snd f). v = NaN \<or> v = Fin 20 \<or> v = Fin (- 20))"
    by blast
next
  assume m: "reference_magnitude fast slow ref = Inr NaN"
  then have k: "scaling_factor fast slow prices (Some ref) = Inr NaN"
    by (simp add: scaling_factor_magnitude)
  from m obtain f where f: "get_forecast fast slow prices (Some ref) = Inr f"
    using reference_magnitude_spans get_forecast_total by blast
  have "\<forall>v \<in> set (map snd f). v = NaN"
  proof
    fix v
    assume "v \<in> set (map snd f)"
    then obtain u where "v = clip (Fin (- 20)) (Fin 20) (fmul u NaN)"
      using get_forecast_values [OF f k] by blast
    then show "v = NaN"
      by (simp add: fmul_NaN_right clip_def)
  qed
  with f show "\<exists>f. get_forecast fast slow prices (Some ref) = Inr f \<and> (\<forall>v \<in> set (map snd f). v = NaN)"
    by blast
next
  assume a: "1 \<le> fast \<and> 1 \<le> slow \<and> c \<noteq> 0 \<and> ts \<noteq> []"
  then show "reference_magnitude fast slow (map (\<lambda>t. (t, Fin c)) ts) = Inr (Fin 0)"
    using reference_magnitude_constant by blast
  from a show "get_forecast fast slow (map (\<lambda>t. (t, Fin c)) ts) None = Inr (map (\<lambda>t. (t, NaN)) ts)"
    using get_forecast_constant by blast
qed

theorem C4_degenerate_reference_returns_series_witness:
  "reference_magnitude 8 32 [(0, Fin 100), (1, Fin 100), (2, Fin 100)] = Inr (Fin 0) \<and>
   get_forecast 8 32 [(0, Fin 100), (1, Fin 100), (2, Fin 100)] None
     = Inr [(0, NaN), (1, NaN), (2, NaN)] \<and>
   get_forecast 8 32 [(0, Fin 1), (1, Fin 2), (2, Fin 4)]
       (Some [(0, Fin 100), (1, Fin 100), (2, Fin 100)])
     = Inr [(0, NaN), (1, Fin 20), (2, Fin 20)]"
  using C4_degenerate_reference_returns_series
    [of 8 32 "[(0, Fin 1), (1, Fin 2), (2, Fin 4)]" "Some [(0, Fin 100), (1, Fin 100), (2, Fin 100)]"
        "[(0, Fin 100), (1, Fin 100), (2, Fin 100)]" 100 "[0, 1, 2]"]
  by (simp add: forecast_eval reference_magnitude_def)

text \<open>
  The claim as stated fails: for a constant price series the reference magnitude is zero
  and \<open>get_forecast\<close> returns a series instead of failing.
\<close>

theorem C4_counterexample:
  "get_forecast 8 32 [(0, Fin 100), (1, Fin 100), (2, Fin 100)] None
     = Inr [(0, NaN), (1, NaN), (2, NaN)] \<and>
   reference_magnitude 8 32 [(0, Fin 100), (1, Fin 100), (2, Fin 100)] = Inr (Fin 0)"
  by (simp add: forecast_eval reference_magnitude_def)

section \<open>Properties of VolTargetSizing\<close>

lemma sqrt_256: "sqrt 256 = 16"
  using real_sqrt_abs [of 16] by simp

lemma map_of_s_map: "map_of (s_map f s) t = map_option f (map_of s t)"
  by (induction s) (auto simp: s_map_def)

lemma s_get_s_map:
  "s_get (s_map f s) t = (if t \<in> set (map fst s) then f (s_get s t) else NaN)"
proof (cases "map_of s t")
  case None
  then have "t \<notin> set (map fst s)" by (simp add: map_of_eq_None_iff)
  moreover have "s_get (s_map f s) t = NaN"
    unfolding s_get_def map_of_s_map None by simp
  ultimately show ?thesis by simp
next
  case (Some v)
  then have "t \<in> set (map fst s)"
    by (metis map_of_eq_None_iff option.distinct(1) set_map)
  moreover have "s_get (s_map f s) t = f (s_get s t)"
    unfolding s_get_def map_of_s_map Some by simp
  ultimately show ?thesis by simp
qed

lemma map_of_zip_same_index:
  "map fst a = map fst b \<Longrightarrow>
   map_of (map (\<lambda>(x, y). (fst x, f (snd x) (snd y))) (zip a b)) t =
     (case map_of a t of None \<Rightarrow> None
      | Some u \<Rightarrow> Some (f u (case map_of b t of Some w \<Rightarrow> w | None \<Rightarrow> NaN)))"
proof (induction a arbitrary: b)
  case Nil
  then show ?case by simp
next
  case (Cons x a)
  then obtain y b' where b: "b = y # b'" by (cases b) auto
  with Cons.prems have "fst x = fst y" "map fst a = map fst b'" by auto
  with Cons.IH [of b'] b show ?case
    by (cases x; cases y) (auto split: option.splits)
qed

lemma s_get_s_binop:
  "s_get (s_binop f a b) t =
     (if t \<in> set (map fst a) \<union> set (map fst b) then f (s_get a t) (s_get b t) else NaN)"
proof (cases "map fst a = map fst b")
  case True
  have zipped: "s_binop f a b = map (\<lambda>(x, y). (fst x, f (snd x) (snd y))) (zip a b)"
    using True by (simp add: s_binop_def)
  show ?thesis
  proof (cases "map_of a t")
    case None
    then have "t \<notin> set (map fst a)" by (simp add: map_of_eq_None_iff)
    moreover have "s_get (s_binop f a b) t = NaN"
      unfolding s_get_def zipped map_of_zip_same_index [OF True] None by simp
    ultimately show ?thesis using True by simp
  next
    case (Some u)
    then have "t \<in> set (map fst a)"
      by (metis map_of_eq_None_iff option.distinct(1) set_map)
    moreover have "s_get (s_binop f a b) t = f (s_get a t) (s_get b t)"
      unfolding s_get_def zipped map_of_zip_same_index [OF True] Some by simp
    ultimately show ?thesis by simp
  qed
next
  case False
  have ml: "map_of (map (\<lambda>t. (t, g t)) ls) t = (if t \<in> set ls then Some (g t) else None)"
    for g :: "timestamp \<Rightarrow> fnum" and ls
    by (induction ls) auto
  have "s_binop f a b =
      map (\<lambda>t. (t, f (s_get a t) (s_get b t))) (sort (remdups (map fst a @ map fst b)))"
    using False by (simp add: s_binop_def)
  then have "map_of (s_binop f a b) t =
      (if t \<in> set (map fst a) \<union> set (map fst b) then Some (f (s_get a t) (s_get b t))
       else None)"
    by (simp add: ml)
  then show ?thesis by (simp add: s_get_def)
qed

lemma length_ewm_var_loop:
  "length (ewm_var_loop \<alpha> m cov sum_wt sum_wt2 old_wt vs) = length vs"
  by (induction vs arbitrary: m cov sum_wt sum_wt2 old_wt) (auto simp: Let_def)

lemma length_ewm_var_values: "length (ewm_var_values \<alpha> vs) = length vs"
  by (cases vs) (auto simp: ewm_var_values_def length_ewm_var_loop)

lemma ewm_std_index: "ewm_std spn s = Inr sd \<Longrightarrow> map fst sd = map fst s"
  by (auto simp: ewm_std_def length_ewm_var_values split: if_splits)

lemma shift1_index: "map fst (shift1 s) = map fst s"
  by (cases s) (simp_all add: shift1_def)

lemma pct_change_index: "map fst (pct_change s) = map fst s"
  by (simp add: pct_change_def s_map_index s_binop_same_index shift1_index)

lemma calculate_volatility_index:
  "calculate_volatility self prices = Inr vol \<Longrightarrow> map fst vol = map fst prices"
  by (auto simp: calculate_volatility_def Let_def s_map_index pct_change_index
      dest!: ewm_std_index split: sum.splits)

lemma calculate_volatility_total:
  "1 \<le> lookback self \<Longrightarrow> \<exists>vol. calculate_volatility self prices = Inr vol"
  by (simp add: calculate_volatility_def ewm_std_def Let_def)

lemma fdiv_NaN_right: "fdiv v NaN = NaN"
  by (cases v) auto

lemma fmul_zero_cases: "fmul (Fin 0) p = Fin 0 \<or> fmul (Fin 0) p = NaN"
  by (cases p) (auto simp: inf_of_sign_def)

lemma fdiv_zero_cases: "fdiv k (Fin 0) \<in> {NaN, PInf, NInf}"
  by (cases k) (auto simp: inf_of_sign_def)

lemma fmul_nonfinite: "x \<in> {NaN, PInf, NInf} \<Longrightarrow> fmul x y \<in> {NaN, PInf, NInf}"
  by (elim insertE; cases y; simp add: inf_of_sign_def)

lemma position_at:
  assumes vol: "calculate_volatility self prices = Inr vol"
    and pos: "get_position_size self forecast prices capital = Inr pos"
  shows "s_get pos t =
    (if t \<in> set (map fst prices) \<union> set (map fst forecast)
     then fmul
       (if t \<in> set (map fst prices)
        then fdiv (fmul (vol_target self) capital) (fmul (s_get vol t) (s_get prices t))
        else NaN)
       (if t \<in> set (map fst forecast) then fdiv (s_get forecast t) (Fin 10) else NaN)
     else NaN)"
proof -
  have idx: "map fst vol = map fst prices"
    using vol by (rule calculate_volatility_index)
  have "pos = s_binop fmul
      (s_map (\<lambda>v. fdiv (fmul (vol_target self) capital) v) (s_binop fmul vol prices))
      (s_map (\<lambda>v. fdiv v (Fin 10)) forecast)"
    using vol pos by (simp add: get_position_size_def Let_def)
  then show ?thesis
    using idx by (simp add: s_get_s_binop s_get_s_map s_map_index s_binop_same_index)
qed

subsection \<open>C5: positions where the volatility estimate is zero or missing\<close>

text \<open>
  C5, as the code has it. \<open>get_position_size\<close> raises nothing for a zero or missing
  volatility estimate: with a lookback of at least 1 it always returns a series. At a
  timestamp where the volatility estimate is missing the position is missing. At a
  timestamp where the volatility estimate is zero the position is missing or infinite,
  never a finite number.
\<close>

theorem C5_missing_volatility_missing_position:
  "(1 \<le> lookback self \<longrightarrow>
      (\<exists>pos. get_position_size self forecast prices capital = Inr pos)) \<and>
   (calculate_volatility self prices = Inr vol \<and>
    get_position_size self forecast prices capital = Inr pos \<longrightarrow>
      (\<forall>t. (s_get vol t = NaN \<longrightarrow> s_get pos t = NaN) \<and>
           (s_get vol t = Fin 0 \<longrightarrow> s_get pos t \<in> {NaN, PInf, NInf})))"
proof (intro conjI impI allI)
  assume "1 \<le> lookback self"
  then obtain vol where "calculate_volatility self prices = Inr vol"
    using calculate_volatility_total by blast
  then show "\<exists>pos. get_position_size self forecast prices capital = Inr pos"
    by (simp add: get_position_size_def Let_def)
next
  fix t
  assume a: "calculate_volatility self prices = Inr vol \<and>
    get_position_size self forecast prices capital = Inr pos"
    and v: "s_get vol t = NaN"
  show "s_get pos t = NaN"
    using position_at [of self prices vol forecast capital pos t] a v
    by (simp add: fdiv_NaN_right)
next
  fix t
  assume a: "calculate_volatility self prices = Inr vol \<and>
    get_position_size self forecast prices capital = Inr pos"
    and v: "s_get vol t = Fin 0"
  have "fdiv k (fmul (Fin 0) p) \<in> {NaN, PInf, NInf}" for k p
    using fmul_zero_cases [of p] fdiv_zero_cases [of k] by (auto simp: fdiv_NaN_right)
  then have "fmul (fdiv k (fmul (Fin 0) p)) y \<in> {NaN, PInf, NInf}" for k p y
    by (rule fmul_nonfinite)
  then show "s_get pos t \<in> {NaN, PInf, NInf}"
    using position_at [of self prices vol forecast capital pos t] a v
    by (simp del: insert_iff) simp
qed

lemmas sizing_eval =
  get_position_size_def calculate_volatility_def ewm_std_def pct_change_def s_binop_def
  shift1_def s_map_def fsub_def ewm_var_values_def prep_value_def ewm_var_out_def
  span_alpha_def zsqrt_def Let_def sqrt_256 inf_of_sign_def

text \<open>
  The claim as stated fails: on a constant price series the volatility estimate is zero
  from the third observation on, and with a forecast of 10 the position there is plus
  infinity, which pandas does not treat as missing.
\<close>

theorem C5_counterexample:
  "calculate_volatility \<lparr>vol_target = Fin (1 / 4), lookback = 25\<rparr>
     [(0, Fin 100), (1, Fin 100), (2, Fin 100), (3, Fin 100)]
     = Inr [(0, NaN), (1, NaN), (2, Fin 0), (3, Fin 0)] \<and>
   get_position_size \<lparr>vol_target = Fin (1 / 4), lookback = 25\<rparr>
     [(0, Fin 10), (1, Fin 10), (2, Fin 10), (3, Fin 10)]
     [(0, Fin 100), (1, Fin 100), (2, Fin 100), (3, Fin 100)] (Fin 100000)
     = Inr [(0, NaN), (1, NaN), (2, PInf), (3, PInf)]"
  by (simp add: sizing_eval)

theorem C5_missing_volatility_missing_position_witness:
  "s_get [(0, NaN), (1, NaN), (2, Fin 0), (3, Fin 0)] 1 = NaN \<and>
   s_get [(0, NaN), (1, NaN), (2, PInf), (3, PInf)] 1 = NaN \<and>
   s_get [(0, NaN), (1, NaN), (2, Fin 0), (3, Fin 0)] 3 = Fin 0 \<and>
   s_get [(0, NaN), (1, NaN), (2, PInf), (3, PInf)] 3 = PInf \<and>
   get_position_size \<lparr>vol_target = Fin (1 / 4), lookback = 25\<rparr>
     [(0, Fin 10), (1, Fin 10), (2, Fin 10), (3, Fin 10)]
     [(0, Fin 100), (1, Fin 100), (2, Fin 100), (3, Fin 100)] (Fin 100000)
     = Inr [(0, NaN), (1, NaN), (2, PInf), (3, PInf)]"
  using C5_missing_volatility_missing_position
    [of "\<lparr>vol_target = Fin (1 / 4), lookback = 25\<rparr>"
        "[(0, Fin 10), (1, Fin 10), (2, Fin 10), (3, Fin 10)]"
        "[(0, Fin 100), (1, Fin 100), (2, Fin 100), (3, Fin 100)]" "Fin 100000"
        "[(0, NaN), (1, NaN), (2, Fin 0), (3, Fin 0)]"
        "[(0, NaN), (1, NaN), (2, PInf), (3, PInf)]"]
  by (simp add: sizing_eval s_get_def)

section \<open>Properties of RollingWindowBacktest\<close>

lemma make_results_empty: "make_results empty_accumulators = empty_result"
  by (simp add: make_results_def empty_accumulators_def empty_result_def cumprod_def s_map_def)

lemma range_up_empty: "stop \<le> i \<Longrightarrow> range_up i stop step = []"
  by (subst range_up_unfold) simp

lemma run_no_window:
  assumes "0 < test_window" "int (length prices) - test_window \<le> train_window"
  shows "run signal sizing train_window test_window prices capital transaction_cost
    = Inr empty_result"
  using assms
  by (simp add: run_def run_cursors_positive range_up_empty make_results_empty)

lemma run_zero_step:
  "run signal sizing train_window 0 prices capital transaction_cost = Inl ValueError"
  by (simp add: run_def run_cursors_def py_range_def)

lemma calculate_metrics_empty: "calculate_metrics std empty_result = None"
  by (simp add: calculate_metrics_def empty_result_def)

subsection \<open>C6: a series shorter than the two windows\<close>

text \<open>
  With a positive \<open>test_window\<close> and fewer prices than \<open>train_window + test_window\<close>,
  \<open>run\<close> executes no window and returns the result whose five series are empty, whatever
  the signal and the sizing are, and \<open>calculate_metrics\<close> returns \<open>None\<close> for it.
  \<open>calculate_metrics\<close> returns \<open>None\<close> exactly when the return series is empty or its
  computed standard deviation equals 0. The guard is commented \<open>Avoid division by zero\<close>,
  but a series of equal returns need not have a computed standard deviation of 0: for the
  returns 0.1, 0.1, 0.1 float64 gives 1.7e-17, and the code then returns metrics, with a
  Sharpe ratio of about 9.4e16, where C6 expects \<open>None\<close>.
\<close>

theorem short_series_empty_result:
  "(0 < test_window \<and> int (length prices) < train_window + test_window \<longrightarrow>
      run signal sizing train_window test_window prices capital transaction_cost
        = Inr empty_result \<and>
      calculate_metrics std empty_result = None) \<and>
   (calculate_metrics std results = None \<longleftrightarrow>
      feq (std (map snd (returns results))) (Fin 0) \<or> returns results = [])"
proof (intro conjI impI)
  assume a: "0 < test_window \<and> int (length prices) < train_window + test_window"
  then have "int (length prices) - test_window \<le> train_window" by simp
  with a show "run signal sizing train_window test_window prices capital transaction_cost
      = Inr empty_result"
    by (simp add: run_no_window)
next
  show "calculate_metrics std empty_result = None"
    by (rule calculate_metrics_empty)
next
  show "calculate_metrics std results = None \<longleftrightarrow>
      feq (std (map snd (returns results))) (Fin 0) \<or> returns results = []"
    by (simp add: calculate_metrics_def Let_def)
qed

theorem short_series_empty_result_witness:
  "run (ewma_signal_call 8 32) (vol_target_sizing_call \<lparr>vol_target = Fin (1 / 4), lookback = 25\<rparr>)
     252 63 [(0, Fin 100), (1, Fin 101), (2, Fin 102)] (Fin 100000) (Fin (1 / 10000))
     = Inr empty_result \<and>
   calculate_metrics (\<lambda>vs. NaN) empty_result = None"
  using short_series_empty_result
    [where test_window = 63 and train_window = 252
       and prices = "[(0, Fin 100), (1, Fin 101), (2, Fin 102)]"
       and signal = "ewma_signal_call 8 32"
       and sizing = "vol_target_sizing_call \<lparr>vol_target = Fin (1 / 4), lookback = 25\<rparr>"
       and capital = "Fin 100000" and transaction_cost = "Fin (1 / 10000)"
       and std = "\<lambda>vs. NaN"]
  by simp

subsection \<open>C7: malformed window parameters\<close>

text \<open>
  C7, as the code has it. \<open>run\<close> does not validate its window parameters. A
  \<open>test_window\<close> of zero raises ValueError before any window is computed. With a positive
  \<open>test_window\<close>, a \<open>train_window\<close> larger than the price history, or a \<open>test_window\<close>
  larger than the price history with a non-negative \<open>train_window\<close>, computes no window
  and returns the empty result without an error.
\<close>

theorem C7_no_window_validation:
  "run signal sizing train_window 0 prices capital transaction_cost = Inl ValueError \<and>
   (0 < test_window \<and>
    (int (length prices) < train_window \<or>
     int (length prices) < test_window \<and> 0 \<le> train_window) \<longrightarrow>
      run signal sizing train_window test_window prices capital transaction_cost
        = Inr empty_result)"
proof (intro conjI impI)
  show "run signal sizing train_window 0 prices capital transaction_cost = Inl ValueError"
    by (rule run_zero_step)
next
  assume a: "0 < test_window \<and>
    (int (length prices) < train_window \<or>
     int (length prices) < test_window \<and> 0 \<le> train_window)"
  then have "int (length prices) - test_window \<le> train_window" by auto
  with a show "run signal sizing train_window test_window prices capital transaction_cost
      = Inr empty_result"
    by (simp add: run_no_window)
qed

theorem C7_no_window_validation_witness:
  "run (ewma_signal_call 8 32) (vol_target_sizing_call \<lparr>vol_target = Fin (1 / 4), lookback = 25\<rparr>)
     2 5 [(0, Fin 100), (1, Fin 101), (2, Fin 102)] (Fin 100000) (Fin (1 / 10000))
     = Inr empty_result \<and>
   run (ewma_signal_call 8 32) (vol_target_sizing_call \<lparr>vol_target = Fin (1 / 4), lookback = 25\<rparr>)
     2 0 [(0, Fin 100), (1, Fin 101), (2, Fin 102)] (Fin 100000) (Fin (1 / 10000))
     = Inl ValueError"
  using C7_no_window_validation
    [where test_window = 5 and train_window = 2
       and prices = "[(0, Fin 100), (1, Fin 101), (2, Fin 102)]"
       and signal = "ewma_signal_call 8 32"
       and sizing = "vol_target_sizing_call \<lparr>vol_target = Fin (1 / 4), lookback = 25\<rparr>"
       and capital = "Fin 100000" and transaction_cost = "Fin (1 / 10000)"]
  by simp

lemma s_binop_nonmissing_left:
  assumes strict: "\<And>y. f NaN y = NaN"
    and mem: "(t, v) \<in> set (s_binop f a b)" and v: "v \<noteq> NaN"
  shows "\<exists>x. (t, x) \<in> set a \<and> x \<noteq> NaN"
proof (cases "map fst a = map fst b")
  case True
  then have "s_binop f a b = map (\<lambda>(x, y). (fst x, f (snd x) (snd y))) (zip a b)"
    by (simp add: s_binop_def)
  with mem obtain x y where xy: "(x, y) \<in> set (zip a b)"
    and t: "t = fst x" and fv: "v = f (snd x) (snd y)"
    by auto
  from fv v strict have "snd x \<noteq> NaN" by metis
  moreover from xy t have "(t, snd x) \<in> set a"
    by (auto dest: set_zip_leftD)
  ultimately show ?thesis by blast
next
  case False
  then have "s_binop f a b =
      map (\<lambda>t. (t, f (s_get a t) (s_get b t))) (sort (remdups (map fst a @ map fst b)))"
    by (simp add: s_binop_def)
  with mem have "v = f (s_get a t) (s_get b t)" by auto
  with v strict have "s_get a t \<noteq> NaN" by metis
  then obtain x where "map_of a t = Some x" "x \<noteq> NaN"
    by (auto simp: s_get_def split: option.splits)
  then show ?thesis
    by (meson map_of_SomeD)
qed

lemma s_binop_nonmissing_right:
  assumes strict: "\<And>x. f x NaN = NaN"
    and mem: "(t, v) \<in> set (s_binop f a b)" and v: "v \<noteq> NaN"
  shows "\<exists>y. (t, y) \<in> set b \<and> y \<noteq> NaN"
proof (cases "map fst a = map fst b")
  case True
  then have len: "length a = length b" by (metis length_map)
  from True have "s_binop f a b = map (\<lambda>(x, y). (fst x, f (snd x) (snd y))) (zip a b)"
    by (simp add: s_binop_def)
  with mem obtain x y where xy: "(x, y) \<in> set (zip a b)"
    and t: "t = fst x" and fv: "v = f (snd x) (snd y)"
    by auto
  from fv v strict have y: "snd y \<noteq> NaN" by metis
  from xy obtain k where k: "k < length a" "a ! k = x" "b ! k = y"
    using len by (auto simp: set_zip)
  then have "fst x = fst y"
    using True len by (metis nth_map)
  with xy t have "(t, snd y) \<in> set b"
    by (auto dest: set_zip_rightD)
  with y show ?thesis by blast
next
  case False
  then have "s_binop f a b =
      map (\<lambda>t. (t, f (s_get a t) (s_get b t))) (sort (remdups (map fst a @ map fst b)))"
    by (simp add: s_binop_def)
  with mem have "v = f (s_get a t) (s_get b t)" by auto
  with v strict have "s_get b t \<noteq> NaN" by metis
  then obtain y where "map_of b t = Some y" "y \<noteq> NaN"
    by (auto simp: s_get_def split: option.splits)
  then show ?thesis
    by (meson map_of_SomeD)
qed

lemma valid_idx_in_test_slice:
  assumes "t \<in> set (map fst (dropna
      (s_binop fsub (s_binop fmul shifted (pct_change test_prices)) cst)))"
  shows "t \<in> set (map fst test_prices)"
proof -
  from assms obtain v where
    mem: "(t, v) \<in> set (s_binop fsub (s_binop fmul shifted (pct_change test_prices)) cst)"
    and v: "v \<noteq> NaN"
    by (auto simp: dropna_def)
  have "\<exists>x. (t, x) \<in> set (s_binop fmul shifted (pct_change test_prices)) \<and> x \<noteq> NaN"
    using mem v by (rule s_binop_nonmissing_left [rotated]) (simp add: fsub_def)
  then obtain x where
    x: "(t, x) \<in> set (s_binop fmul shifted (pct_change test_prices))" "x \<noteq> NaN"
    by blast
  have "\<exists>y. (t, y) \<in> set (pct_change test_prices) \<and> y \<noteq> NaN"
    using x by (rule s_binop_nonmissing_right [rotated]) (simp add: fmul_NaN_right)
  then have "t \<in> set (map fst (pct_change test_prices))"
    by force
  then show ?thesis by (simp add: pct_change_index)
qed

lemma window_step_timestamps:
  assumes "window_step signal sizing train_window test_window prices capital
      transaction_cost i acc = Inr acc'"
  shows "set (timestamps acc') \<subseteq>
    set (timestamps acc) \<union> set (map fst (iloc_slice prices i (i + test_window)))"
proof -
  from assms obtain shifted cst where
    "timestamps acc' = timestamps acc @ map fst (dropna
       (s_binop fsub
          (s_binop fmul shifted (pct_change (iloc_slice prices i (i + test_window))))
          cst))"
    by (auto simp: window_step_def Let_def split: sum.splits)
  moreover have "set (map fst (dropna
       (s_binop fsub
          (s_binop fmul shifted (pct_change (iloc_slice prices i (i + test_window))))
          cst))) \<subseteq> set (map fst (iloc_slice prices i (i + test_window)))"
    using valid_idx_in_test_slice by blast
  ultimately show ?thesis
    by (metis Un_mono set_append subset_refl)
qed

lemma run_loop_timestamps:
  "run_loop signal sizing train_window test_window prices capital transaction_cost cs acc
     = Inr acc' \<Longrightarrow>
   set (timestamps acc') \<subseteq>
     set (timestamps acc) \<union>
     (\<Union>i \<in> set cs. set (map fst (iloc_slice prices i (i + test_window))))"
proof (induction cs arbitrary: acc)
  case Nil
  then show ?case by simp
next
  case (Cons i cs)
  from Cons.prems obtain acc1 where
    step: "window_step signal sizing train_window test_window prices capital
      transaction_cost i acc = Inr acc1"
    and rest: "run_loop signal sizing train_window test_window prices capital
      transaction_cost cs acc1 = Inr acc'"
    by (auto split: sum.splits)
  from Cons.IH [OF rest] window_step_timestamps [OF step] show ?case
    by auto
qed

lemma set_take_drop_subset: "set (take m (drop j xs)) \<subseteq> set (take (m + j) xs)"
  by (simp add: take_drop set_drop_subset)

lemma test_slice_in_butlast:
  assumes "0 \<le> i" "0 < test_window" "i < int (length prices) - test_window"
  shows "set (iloc_slice prices i (i + test_window)) \<subseteq> set (butlast prices)"
proof -
  let ?n = "length prices"
  have lo: "slice_bound ?n i = nat i"
    using assms by (simp add: slice_bound_def)
  have hi: "slice_bound ?n (i + test_window) = nat (i + test_window)"
    using assms by (simp add: slice_bound_def)
  have "nat (i + test_window) - nat i + nat i = nat (i + test_window)"
    using assms by simp
  then have "set (iloc_slice prices i (i + test_window)) \<subseteq> set (take (nat (i + test_window)) prices)"
    using set_take_drop_subset [of "nat (i + test_window) - nat i" "nat i" prices]
    by (simp add: iloc_slice_def lo hi Let_def)
  moreover have "nat (i + test_window) \<le> ?n - 1"
    using assms by linarith
  then have "set (take (nat (i + test_window)) prices) \<subseteq> set (butlast prices)"
    by (simp add: butlast_conv_take set_take_subset_set_take)
  ultimately show ?thesis by blast
qed

lemma butlast_before_last:
  assumes "sorted_wrt (<) (map fst prices)" "p \<in> set (butlast prices)"
  shows "fst p < fst (last prices)"
proof -
  from assms(2) have ne: "prices \<noteq> []" by auto
  then have "prices = butlast prices @ [last prices]" by simp
  then have "sorted_wrt (<) (map fst (butlast prices) @ [fst (last prices)])"
    using assms(1) by (metis list.simps(8,9) map_append)
  then show ?thesis
    using assms(2) by (auto simp: sorted_wrt_append)
qed

lemma make_results_index:
  "set (map fst (returns (make_results acc))) \<subseteq> set (timestamps acc)"
  "set (map fst (forecasts (make_results acc))) \<subseteq> set (timestamps acc)"
  "set (map fst (positions (make_results acc))) \<subseteq> set (timestamps acc)"
  "set (map fst (costs (make_results acc))) \<subseteq> set (timestamps acc)"
  "set (map fst (cumulative_returns (make_results acc))) \<subseteq> set (timestamps acc)"
  by (auto simp: make_results_def Let_def cumprod_def s_map_index dest!: set_zip_leftD)

text \<open>
  The claim as stated fails: a \<open>test_window\<close> larger than the price history returns the
  empty result, and a \<open>train_window\<close> of zero lets a window run and a result be returned.
\<close>

theorem C7_counterexample:
  "run (ewma_signal_call 8 32)
     (vol_target_sizing_call \<lparr>vol_target = Fin (1 / 4), lookback = 25\<rparr>)
     2 5 [(0, Fin 100), (1, Fin 101), (2, Fin 102)] (Fin 100000) (Fin (1 / 10000))
     = Inr empty_result \<and>
   run (\<lambda>p t. Inr (s_map (\<lambda>v. Fin 10) p)) (\<lambda>f p c. Inr f)
     0 2 [(0, Fin 100), (1, Fin 101), (2, Fin 102)] (Fin 100000) (Fin (1 / 10000))
     = Inr \<lparr>returns = [(1, Fin (1 / 10))], forecasts = [(1, Fin 10)],
            positions = [(1, Fin 10)], costs = [(1, Fin 0)],
            cumulative_returns = [(1, Fin (11 / 10))]\<rparr>"
proof
  show "run (ewma_signal_call 8 32)
     (vol_target_sizing_call \<lparr>vol_target = Fin (1 / 4), lookback = 25\<rparr>)
     2 5 [(0, Fin 100), (1, Fin 101), (2, Fin 102)] (Fin 100000) (Fin (1 / 10000))
     = Inr empty_result"
    by (simp add: run_no_window)
next
  show "run (\<lambda>p t. Inr (s_map (\<lambda>v. Fin 10) p)) (\<lambda>f p c. Inr f)
     0 2 [(0, Fin 100), (1, Fin 101), (2, Fin 102)] (Fin 100000) (Fin (1 / 10000))
     = Inr \<lparr>returns = [(1, Fin (1 / 10))], forecasts = [(1, Fin 10)],
            positions = [(1, Fin 10)], costs = [(1, Fin 0)],
            cumulative_returns = [(1, Fin (11 / 10))]\<rparr>"
    by code_simp
qed

subsection \<open>C10: the last observation is never tested\<close>

text \<open>
  C10, as the code has it. With positive window parameters and strictly increasing
  timestamps, no test slice of \<open>run\<close> contains the last observation of the price series,
  and every timestamp of every series of the returned result is strictly before the last
  timestamp of the price series, whatever the signal and the sizing are. Only the last
  observation is excluded in every run: the rest of the most recent \<open>test_window\<close>
  observations can be tested.
\<close>

theorem C10_last_observation_never_tested:
  "0 < train_window \<and> 0 < test_window \<and> sorted_wrt (<) (map fst prices) \<and>
   run signal sizing train_window test_window prices capital transaction_cost = Inr res \<longrightarrow>
     (\<exists>cs. run_cursors train_window test_window (length prices) = Inr cs \<and>
        (\<forall>i \<in> set cs. last prices \<notin> set (iloc_slice prices i (i + test_window)))) \<and>
     (\<forall>t \<in> set (map fst (returns res)) \<union> set (map fst (forecasts res)) \<union>
           set (map fst (positions res)) \<union> set (map fst (costs res)) \<union>
           set (map fst (cumulative_returns res)).
        t < fst (last prices))"
proof (intro impI)
  assume a: "0 < train_window \<and> 0 < test_window \<and> sorted_wrt (<) (map fst prices) \<and>
    run signal sizing train_window test_window prices capital transaction_cost = Inr res"
  let ?cs = "range_up train_window (int (length prices) - test_window) test_window"
  have cs: "run_cursors train_window test_window (length prices) = Inr ?cs"
    using a by (simp add: run_cursors_positive)
  have slice: "set (iloc_slice prices i (i + test_window)) \<subseteq> set (butlast prices)"
    if "i \<in> set ?cs" for i
  proof -
    from that a have "train_window \<le> i" "i < int (length prices) - test_window"
      by (simp_all add: range_up_set)
    with a show ?thesis by (intro test_slice_in_butlast) auto
  qed
  have before: "fst p < fst (last prices)" if "p \<in> set (butlast prices)" for p
    using a that by (intro butlast_before_last) auto
  have notlast: "last prices \<notin> set (iloc_slice prices i (i + test_window))"
    if "i \<in> set ?cs" for i
  proof
    assume "last prices \<in> set (iloc_slice prices i (i + test_window))"
    with slice [OF that] have "last prices \<in> set (butlast prices)" by blast
    from before [OF this] show False by simp
  qed
  from a cs obtain acc where
    loop: "run_loop signal sizing train_window test_window prices capital transaction_cost
      ?cs empty_accumulators = Inr acc"
    and res: "res = make_results acc"
    by (auto simp: run_def split: sum.splits)
  have ts: "t < fst (last prices)" if "t \<in> set (timestamps acc)" for t
  proof -
    from run_loop_timestamps [OF loop]
    have "set (timestamps acc) \<subseteq>
        (\<Union>i \<in> set ?cs. set (map fst (iloc_slice prices i (i + test_window))))"
      by (simp add: empty_accumulators_def)
    with that
    have "\<exists>i \<in> set ?cs. t \<in> set (map fst (iloc_slice prices i (i + test_window)))"
      by blast
    then obtain i p where i: "i \<in> set ?cs"
      and "p \<in> set (iloc_slice prices i (i + test_window))" "t = fst p"
      by auto
    with slice [OF i] before show ?thesis by blast
  qed
  have "\<forall>t \<in> set (map fst (returns res)) \<union> set (map fst (forecasts res)) \<union>
           set (map fst (positions res)) \<union> set (map fst (costs res)) \<union>
           set (map fst (cumulative_returns res)).
        t < fst (last prices)"
    using make_results_index [of acc] ts unfolding res by blast
  with cs notlast show "(\<exists>cs. run_cursors train_window test_window (length prices) = Inr cs \<and>
        (\<forall>i \<in> set cs. last prices \<notin> set (iloc_slice prices i (i + test_window)))) \<and>
     (\<forall>t \<in> set (map fst (returns res)) \<union> set (map fst (forecasts res)) \<union>
           set (map fst (positions res)) \<union> set (map fst (costs res)) \<union>
           set (map fst (cumulative_returns res)).
        t < fst (last prices))"
    by blast
qed

theorem C10_last_observation_never_tested_witness:
  "run (\<lambda>p t. Inr (s_map (\<lambda>v. Fin 10) p)) (\<lambda>f p c. Inr f)
     1 2 [(0, Fin 100), (1, Fin 100), (2, Fin 110), (3, Fin 121)] (Fin 100000) (Fin 0)
     = Inr \<lparr>returns = [(2, Fin 1)], forecasts = [(2, Fin 10)], positions = [(2, Fin 10)],
            costs = [(2, Fin 0)], cumulative_returns = [(2, Fin 2)]\<rparr> \<and>
   (2 :: int) < fst (last [(0, Fin 100), (1, Fin 100), (2, Fin 110), (3 :: int, Fin 121)])"
proof -
  have r: "run (\<lambda>p t. Inr (s_map (\<lambda>v. Fin 10) p)) (\<lambda>f p c. Inr f)
     1 2 [(0, Fin 100), (1, Fin 100), (2, Fin 110), (3, Fin 121)] (Fin 100000) (Fin 0)
     = Inr \<lparr>returns = [(2, Fin 1)], forecasts = [(2, Fin 10)], positions = [(2, Fin 10)],
            costs = [(2, Fin 0)], cumulative_returns = [(2, Fin 2)]\<rparr>"
    by code_simp
  from C10_last_observation_never_tested
    [where train_window = 1 and test_window = 2
       and prices = "[(0, Fin 100), (1, Fin 100), (2, Fin 110), (3, Fin 121)]"
       and signal = "\<lambda>p t. Inr (s_map (\<lambda>v. Fin 10) p)" and sizing = "\<lambda>f p c. Inr f"
       and capital = "Fin 100000" and transaction_cost = "Fin 0"
       and res = "\<lparr>returns = [(2, Fin 1)], forecasts = [(2, Fin 10)],
            positions = [(2, Fin 10)], costs = [(2, Fin 0)],
            cumulative_returns = [(2, Fin 2)]\<rparr>"] r
  show ?thesis by simp
qed

text \<open>
  The claim as stated fails in its last clause, that the most recent \<open>test_window\<close> of data
  is never evaluated: with 8 prices, \<open>train_window = 1\<close> and \<open>test_window = 3\<close> the cursor
  takes the values 1 and 4, the second test slice holds the timestamps 4, 5 and 6, and the
  result has values at the timestamps 5 and 6, two of the three most recent ones.
\<close>

theorem C10_counterexample:
  "run (\<lambda>p t. Inr (s_map (\<lambda>v. Fin 10) p)) (\<lambda>f p c. Inr f) 1 3
     [(0, Fin 1), (1, Fin 1), (2, Fin 2), (3, Fin 4), (4, Fin 4), (5, Fin 8), (6, Fin 16),
      (7, Fin 16)] (Fin 100000) (Fin 0)
     = Inr \<lparr>returns = [(2, Fin 10), (3, Fin 10), (5, Fin 10), (6, Fin 10)],
            forecasts = [(2, Fin 10), (3, Fin 10), (5, Fin 10), (6, Fin 10)],
            positions = [(2, Fin 10), (3, Fin 10), (5, Fin 10), (6, Fin 10)],
            costs = [(2, Fin 0), (3, Fin 0), (5, Fin 0), (6, Fin 0)],
            cumulative_returns = [(2, Fin 11), (3, Fin 121), (5, Fin 1331), (6, Fin 14641)]\<rparr> \<and>
   map fst (drop (8 - 3)
     ([(0, Fin 1), (1, Fin 1), (2, Fin 2), (3, Fin 4), (4, Fin 4), (5, Fin 8), (6, Fin 16),
       (7, Fin 16)] :: series)) = [5, 6, 7]"
proof
  show "run (\<lambda>p t. Inr (s_map (\<lambda>v. Fin 10) p)) (\<lambda>f p c. Inr f) 1 3
     [(0, Fin 1), (1, Fin 1), (2, Fin 2), (3, Fin 4), (4, Fin 4), (5, Fin 8), (6, Fin 16),
      (7, Fin 16)] (Fin 100000) (Fin 0)
     = Inr \<lparr>returns = [(2, Fin 10), (3, Fin 10), (5, Fin 10), (6, Fin 10)],
            forecasts = [(2, Fin 10), (3, Fin 10), (5, Fin 10), (6, Fin 10)],
            positions = [(2, Fin 10), (3, Fin 10), (5, Fin 10), (6, Fin 10)],
            costs = [(2, Fin 0), (3, Fin 0), (5, Fin 0), (6, Fin 0)],
            cumulative_returns = [(2, Fin 11), (3, Fin 121), (5, Fin 1331), (6, Fin 14641)]\<rparr>"
    by code_simp
next
  show "map fst (drop (8 - 3)
     ([(0, Fin 1), (1, Fin 1), (2, Fin 2), (3, Fin 4), (4, Fin 4), (5, Fin 8), (6, Fin 16),
       (7, Fin 16)] :: series)) = [5, 6, 7]"
    by simp
qed

section \<open>Properties of PortfolioOptimizer\<close>



subsection \<open>C8: the diversification multiplier\<close>



lemma foldl_fadd_Fin: "foldl fadd (Fin a) (map Fin xs) = Fin (a + sum_list xs)"
  by (induction xs arbitrary: a) (auto simp: add.assoc)

lemma fsum_Fin: "fsum (map Fin xs) = Fin (sum_list xs)"
  by (simp add: fsum_def foldl_fadd_Fin)

lemma nonmissing_Fin: "nonmissing (map Fin xs) = map Fin xs"
  by (induction xs) (auto simp: nonmissing_def)

lemma fsum_replicate: "fsum (replicate n (Fin c)) = Fin (real n * c)"
proof -
  have "replicate n (Fin c) = map Fin (replicate n c)" by simp
  then show ?thesis
    by (simp only: fsum_Fin sum_list_replicate)
qed

lemma sum_list_scaled: "sum_list (map (\<lambda>x. x * k) xs) = sum_list xs * (k :: real)"
  by (induction xs) (auto simp: algebra_simps)

lemma weighted_products:
  "w \<noteq> 0 \<Longrightarrow> length ws = length xs \<Longrightarrow> set ws \<subseteq> {Fin c} \<Longrightarrow>
   map (\<lambda>(v, u). fmul v u) (zip (map Fin xs) (map (\<lambda>u. fdiv u (Fin w)) ws)) =
     map Fin (map (\<lambda>x. x * (c / w)) xs)"
proof (induction xs arbitrary: ws)
  case Nil
  then show ?case by simp
next
  case (Cons x xs)
  then obtain u ws' where "ws = u # ws'" by (cases ws) auto
  with Cons show ?case by auto
qed

lemma row_weighted_eq_mean:
  assumes "xs \<noteq> []" "c \<noteq> 0"
  shows "sum_skipna
      (map (\<lambda>(v, u). fmul v u)
         (zip (map Fin xs)
            (map (\<lambda>u. fdiv u (fsum (replicate (length xs) (Fin c))))
               (replicate (length xs) (Fin c)))))
    = mean_skipna (map Fin xs)"
proof -
  let ?n = "real (length xs)"
  have n: "?n \<noteq> 0" using assms by simp
  have "map (\<lambda>(v, u). fmul v u)
         (zip (map Fin xs)
            (map (\<lambda>u. fdiv u (Fin (?n * c))) (replicate (length xs) (Fin c))))
      = map Fin (map (\<lambda>x. x * (c / (?n * c))) xs)"
    using assms n by (intro weighted_products) auto
  moreover have "sum_list (map (\<lambda>x. x * (c / (?n * c))) xs) = sum_list xs / ?n"
    using assms n by (simp only: sum_list_scaled) simp
  ultimately show ?thesis
    using assms
    by (simp add: sum_skipna_def mean_skipna_def nonmissing_Fin fsum_Fin fsum_replicate
        Let_def del: map_map)
qed


lemma finite_cells:
  "\<forall>v \<in> set cells. is_fin v \<Longrightarrow> \<exists>xs. cells = map Fin xs"
proof (induction cells)
  case Nil
  then show ?case by simp
next
  case (Cons v cells)
  then obtain xs where "cells = map Fin xs" by auto
  moreover from Cons.prems obtain x where "v = Fin x" by (cases v) auto
  ultimately have "v # cells = map Fin (x # xs)" by simp
  then show ?case by (rule exI [of _ "x # xs"])
qed

lemma DataFrame_row_length:
  "k < length (rows (DataFrame forecasts_dict)) \<Longrightarrow>
   length (snd (rows (DataFrame forecasts_dict) ! k)) = length forecasts_dict"
  by (simp add: DataFrame_def Let_def)

lemma DataFrame_rows_nonempty:
  "k < length (rows (DataFrame forecasts_dict)) \<Longrightarrow> forecasts_dict \<noteq> []"
  by (auto simp: DataFrame_def Let_def frame_index_def)

lemma DataFrame_columns: "columns (DataFrame forecasts_dict) = map fst forecasts_dict"
  by (simp add: DataFrame_def Let_def)

lemma combine_unweighted_nth:
  "k < length (rows (DataFrame forecasts_dict)) \<Longrightarrow>
   combine_forecasts forecasts_dict None ! k =
     (fst (rows (DataFrame forecasts_dict) ! k),
      clip (Fin (- 20)) (Fin 20) (mean_skipna (snd (rows (DataFrame forecasts_dict) ! k))))"
  by (simp add: combine_forecasts_def Let_def s_map_def split_beta)

lemma combine_weighted_nth:
  "k < length (rows (DataFrame forecasts_dict)) \<Longrightarrow>
   combine_forecasts forecasts_dict (Some cw) ! k =
     (let weights = map (\<lambda>col. case cw col of Some w \<Rightarrow> w | None \<Rightarrow> Fin 1)
                      (map fst forecasts_dict)
      in (fst (rows (DataFrame forecasts_dict) ! k),
          clip (Fin (- 20)) (Fin 20)
            (sum_skipna
               (map (\<lambda>(c, w). fmul c w)
                  (zip (snd (rows (DataFrame forecasts_dict) ! k))
                     (map (\<lambda>w. fdiv w (fsum weights)) weights))))))"
  by (simp add: combine_forecasts_def Let_def s_map_def split_beta DataFrame_columns comp_def)

lemma equal_weights_replicate:
  "\<forall>name \<in> set names. cw name = Some w \<Longrightarrow>
   map (\<lambda>col. case cw col of Some w \<Rightarrow> w | None \<Rightarrow> Fin 1) names = replicate (length names) w"
  by (induction names) auto

subsection \<open>C9: equal weights and the unweighted mean\<close>

text \<open>
  Let every name have the same finite, non-zero weight. At a row of the frame in which
  every named series has a finite value, the weighted combination equals the unweighted
  one when both are computed exactly.
\<close>

theorem equal_weights_complete_rows:
  "(\<forall>name \<in> set (map fst forecasts_dict). cw name = Some (Fin c)) \<and> c \<noteq> 0 \<and>
   k < length (rows (DataFrame forecasts_dict)) \<and>
   (\<forall>v \<in> set (snd (rows (DataFrame forecasts_dict) ! k)). is_fin v) \<longrightarrow>
     combine_forecasts forecasts_dict (Some cw) ! k = combine_forecasts forecasts_dict None ! k"
proof
  assume a: "(\<forall>name \<in> set (map fst forecasts_dict). cw name = Some (Fin c)) \<and> c \<noteq> 0 \<and>
   k < length (rows (DataFrame forecasts_dict)) \<and>
   (\<forall>v \<in> set (snd (rows (DataFrame forecasts_dict) ! k)). is_fin v)"
  let ?cells = "snd (rows (DataFrame forecasts_dict) ! k)"
  from a have k: "k < length (rows (DataFrame forecasts_dict))" by simp
  from a obtain xs where xs: "?cells = map Fin xs"
    using finite_cells by blast
  have len: "length xs = length forecasts_dict"
    using DataFrame_row_length [OF k] xs by simp
  with DataFrame_rows_nonempty [OF k] have ne: "xs \<noteq> []" by auto
  have w: "map (\<lambda>col. case cw col of Some w \<Rightarrow> w | None \<Rightarrow> Fin 1) (map fst forecasts_dict)
      = replicate (length xs) (Fin c)"
    using a equal_weights_replicate [of "map fst forecasts_dict" cw "Fin c"] len by simp
  have "sum_skipna
      (map (\<lambda>(v, u). fmul v u)
         (zip ?cells
            (map (\<lambda>u. fdiv u (fsum (replicate (length xs) (Fin c))))
               (replicate (length xs) (Fin c)))))
    = mean_skipna ?cells"
    unfolding xs using ne a by (intro row_weighted_eq_mean) auto
  then show "combine_forecasts forecasts_dict (Some cw) ! k
      = combine_forecasts forecasts_dict None ! k"
    by (simp only: combine_weighted_nth [OF k] combine_unweighted_nth [OF k] w Let_def)
qed

lemmas combine_eval =
  combine_forecasts_def DataFrame_def frame_index_def column_values_def s_get_def s_map_def
  mean_skipna_def sum_skipna_def nonmissing_def fsum_def clip_def Let_def upt_rec

theorem equal_weights_complete_rows_witness:
  "combine_forecasts [(''a'', [(0, Fin 10), (1, Fin 10)]), (''b'', [(1, Fin 20)])]
     (Some [''a'' \<mapsto> Fin 3, ''b'' \<mapsto> Fin 3]) ! 1 = (1, Fin 15) \<and>
   combine_forecasts [(''a'', [(0, Fin 10), (1, Fin 10)]), (''b'', [(1, Fin 20)])] None ! 1
     = (1, Fin 15)"
  using equal_weights_complete_rows
    [where forecasts_dict = "[(''a'', [(0, Fin 10), (1, Fin 10)]), (''b'', [(1, Fin 20)])]"
       and cw = "[''a'' \<mapsto> Fin 3, ''b'' \<mapsto> Fin 3]" and c = 3 and k = 1]
  by (simp add: combine_eval)

text \<open>
  C9. The docstring of \<open>combine_forecasts\<close> says of the weights \<open>If None, equal weight\<close>,
  so equal weights for every name should give the unweighted mean at every timestamp.
  The code does not do that where a series has no value. The frame holds NaN there; the
  mean skips it and divides by the number of values present, while the weighted sum skips
  it and keeps the weights normalised over all names. With series \<open>a\<close> on the timestamps
  0 and 1 and series \<open>b\<close> on the timestamp 1 only, both with weight 1, the combined
  forecast at timestamp 0 is 5 with the weights and 10 without them.
\<close>

theorem C9_equal_weights_differ_at_missing_value:
  "combine_forecasts [(''a'', [(0, Fin 10), (1, Fin 10)]), (''b'', [(1, Fin 20)])]
     (Some [''a'' \<mapsto> Fin 1, ''b'' \<mapsto> Fin 1]) = [(0, Fin 5), (1, Fin 15)] \<and>
   combine_forecasts [(''a'', [(0, Fin 10), (1, Fin 10)]), (''b'', [(1, Fin 20)])] None
     = [(0, Fin 10), (1, Fin 15)]"
  by (simp add: combine_eval)

section \<open>The backtest with the repository's own signal\<close>

text \<open>
  \<open>main.py\<close> passes an \<open>EWMASignal\<close> to \<open>RollingWindowBacktest\<close>. Since \<open>run\<close> calls
  \<open>get_forecast\<close> with the keyword \<open>train_data\<close>, which \<open>EWMASignal.get_forecast\<close> does not
  have, the run raises TypeError as soon as the loop has a first cursor.
\<close>

theorem run_with_EWMASignal_raises_TypeError:
  "0 < test_window \<and> train_window < int (length prices) - test_window \<longrightarrow>
     run (ewma_signal_call fast slow) sizing train_window test_window prices capital
       transaction_cost = Inl TypeError"
proof
  assume a: "0 < test_window \<and> train_window < int (length prices) - test_window"
  then have "range_up train_window (int (length prices) - test_window) test_window =
      train_window #
      range_up (train_window + test_window) (int (length prices) - test_window) test_window"
    by (subst range_up_unfold) simp
  with a show "run (ewma_signal_call fast slow) sizing train_window test_window prices capital
       transaction_cost = Inl TypeError"
    by (simp add: run_def run_cursors_positive window_step_def ewma_signal_call_def Let_def)
qed

theorem run_with_EWMASignal_raises_TypeError_witness:
  "run (ewma_signal_call 8 32)
     (vol_target_sizing_call \<lparr>vol_target = Fin (1 / 4), lookback = 25\<rparr>)
     1 1 [(0, Fin 100), (1, Fin 101), (2, Fin 102)] (Fin 100000) (Fin (1 / 10000))
     = Inl TypeError"
  using run_with_EWMASignal_raises_TypeError
    [where test_window = 1 and train_window = 1
       and prices = "[(0, Fin 100), (1, Fin 101), (2, Fin 102)]" and fast = 8 and slow = 32
       and sizing = "vol_target_sizing_call \<lparr>vol_target = Fin (1 / 4), lookback = 25\<rparr>"
       and capital = "Fin 100000" and transaction_cost = "Fin (1 / 10000)"]
  by simp

end
